theory Spec2Isabelle
  imports Main "HOL-Library.AList"
begin

section \<open>JavaScript values\<close>

text \<open>
  The client (\<^verbatim>\<open>AuthManager\<close>, \<^verbatim>\<open>CloudSyncManager\<close>, \<^verbatim>\<open>LocalCacheManager\<close>,
  \<^verbatim>\<open>AuthUI.handleLogout\<close>) and the Express routes are dynamically typed, so the
  embedding works on one type of JavaScript values. Numbers are integers here (no claim
  computes with them); an object is the list of its own properties in insertion order.
  \<open>Date (Some t)\<close> is a valid \<^verbatim>\<open>Date\<close> whose \<^verbatim>\<open>toISOString()\<close> is \<open>t\<close>,
  \<open>Date None\<close> is the invalid date. Parsed JSON contains neither \<open>Undefined\<close> nor
  \<open>Date\<close>.
\<close>

datatype jsval =
    Undefined
  | Null
  | Bool bool
  | Num int
  | Str string
  | Date "string option"
  | Arr "jsval list"
  | Obj "(string \<times> jsval) list"

datatype exn = TypeError | SyntaxError | RangeError

text \<open>Truthiness, as used by \<^verbatim>\<open>!x\<close>, \<^verbatim>\<open>if (x)\<close> and \<^verbatim>\<open>a || b\<close>.\<close>

fun truthy :: "jsval \<Rightarrow> bool" where
  "truthy Undefined = False"
| "truthy Null = False"
| "truthy (Bool b) = b"
| "truthy (Num n) = (n \<noteq> 0)"
| "truthy (Str s) = (s \<noteq> [])"
| "truthy (Date d) = True"
| "truthy (Arr xs) = True"
| "truthy (Obj kvs) = True"

definition js_or :: "jsval \<Rightarrow> jsval \<Rightarrow> jsval" where
  "js_or a b = (if truthy a then a else b)"

text \<open>
  Reading a property \<^verbatim>\<open>v.k\<close>: a \<^verbatim>\<open>TypeError\<close> on \<^verbatim>\<open>null\<close> and
  \<^verbatim>\<open>undefined\<close>, the own property of an object, and \<^verbatim>\<open>undefined\<close> otherwise.
  The program reads only names that no string, array, number or date has
  (\<^verbatim>\<open>success\<close>, \<^verbatim>\<open>error\<close>, \<^verbatim>\<open>id\<close>, \<^verbatim>\<open>data\<close>, \<^verbatim>\<open>type\<close>,
  \<^verbatim>\<open>monthId\<close>, \<^verbatim>\<open>importedAt\<close>, ...). \<open>opt_prop\<close> is \<^verbatim>\<open>v?.k\<close>.
\<close>

fun get_prop :: "jsval \<Rightarrow> string \<Rightarrow> exn + jsval" where
  "get_prop Undefined k = Inl TypeError"
| "get_prop Null k = Inl TypeError"
| "get_prop (Obj kvs) k = Inr (case map_of kvs k of None \<Rightarrow> Undefined | Some v \<Rightarrow> v)"
| "get_prop v k = Inr Undefined"

definition opt_prop :: "jsval \<Rightarrow> string \<Rightarrow> jsval" where
  "opt_prop v k = (case get_prop v k of Inl e \<Rightarrow> Undefined | Inr x \<Rightarrow> x)"

text \<open>Decimal text of a number, as string concatenation and template literals produce it.\<close>

fun show_nat :: "nat \<Rightarrow> string" where
  "show_nat n =
     (if n < 10 then [''0123456789'' ! n]
      else show_nat (n div 10) @ [''0123456789'' ! (n mod 10)])"

definition show_int :: "int \<Rightarrow> string" where
  "show_int i = (if i < 0 then CHR ''-'' # show_nat (nat (- i)) else show_nat (nat i))"

fun join_comma :: "string list \<Rightarrow> string" where
  "join_comma [] = []"
| "join_comma [x] = x"
| "join_comma (x # y # ys) = x @ CHR '','' # join_comma (y # ys)"

text \<open>
  \<^verbatim>\<open>String(v)\<close>. The text of a \<^verbatim>\<open>Date\<close> depends on the locale in JavaScript; the
  model takes its ISO form. Identifiers reach the program from parsed JSON, which holds no dates.
\<close>

fun js_to_string :: "jsval \<Rightarrow> string" where
  "js_to_string Undefined = ''undefined''"
| "js_to_string Null = ''null''"
| "js_to_string (Bool b) = (if b then ''true'' else ''false'')"
| "js_to_string (Num n) = show_int n"
| "js_to_string (Str s) = s"
| "js_to_string (Date d) = (case d of None \<Rightarrow> ''Invalid Date'' | Some t \<Rightarrow> t)"
| "js_to_string (Arr xs) =
     join_comma (map (\<lambda>x. if x = Undefined \<or> x = Null then [] else js_to_string x) xs)"
| "js_to_string (Obj kvs) = ''[object Object]''"

text \<open>
  The own enumerable properties that the spread \<^verbatim>\<open>{...d}\<close> copies: those of an object,
  the indices of an array or of a string, none for the other values.
\<close>

fun own_props :: "jsval \<Rightarrow> (string \<times> jsval) list" where
  "own_props (Obj kvs) = kvs"
| "own_props (Arr xs) = zip (map show_nat [0..<length xs]) xs"
| "own_props (Str s) = zip (map show_nat [0..<length s]) (map (\<lambda>c. Str [c]) s)"
| "own_props v = []"

text \<open>
  \<^verbatim>\<open>JSON.stringify\<close> followed by \<^verbatim>\<open>JSON.parse\<close>: a property whose value is
  \<^verbatim>\<open>undefined\<close> is dropped, \<^verbatim>\<open>undefined\<close> in an array becomes \<^verbatim>\<open>null\<close>, a date
  becomes its ISO string (\<^verbatim>\<open>null\<close> when invalid).
\<close>

fun to_json :: "jsval \<Rightarrow> jsval" where
  "to_json (Date (Some t)) = Str t"
| "to_json (Date None) = Null"
| "to_json (Arr xs) = Arr (map (\<lambda>x. if x = Undefined then Null else to_json x) xs)"
| "to_json (Obj kvs) =
     Obj (map (\<lambda>(k, v). (k, to_json v)) (filter (\<lambda>(k, v). v \<noteq> Undefined) kvs))"
| "to_json v = v"

text \<open>\<^verbatim>\<open>xs.map(f)\<close> where \<open>f\<close> may throw: the first exception ends the traversal.\<close>

fun map_exn :: "('a \<Rightarrow> exn + 'b) \<Rightarrow> 'a list \<Rightarrow> exn + 'b list" where
  "map_exn f [] = Inr []"
| "map_exn f (x # xs) =
     (case f x of
        Inl e \<Rightarrow> Inl e
      | Inr y \<Rightarrow> (case map_exn f xs of Inl e \<Rightarrow> Inl e | Inr ys \<Rightarrow> Inr (y # ys)))"

section \<open>The browser store\<close>

text \<open>
  \<^verbatim>\<open>localStorage\<close> maps keys to text. The program reads a stored text only through
  \<^verbatim>\<open>!text\<close> and \<^verbatim>\<open>JSON.parse(text)\<close>, so a text is modelled by what these two see:
  \<open>Json v\<close> is (non-empty) JSON text that parses to \<open>v\<close>, \<open>Plain t\<close> is the text \<open>t\<close>
  when \<^verbatim>\<open>JSON.parse\<close> rejects it with a \<^verbatim>\<open>SyntaxError\<close> (the empty text is one of
  these). The session token is stored as it is and never parsed; it is a \<open>Plain\<close> text.
  The store is a list of entries so that \<^verbatim>\<open>localStorage.length\<close> and
  \<^verbatim>\<open>localStorage.key(i)\<close> can be read; it is taken to have room for every write.
\<close>

datatype stored = Plain string | Json jsval

type_synonym storage = "(string \<times> stored) list"

definition getItem :: "storage \<Rightarrow> string \<Rightarrow> stored option" where
  "getItem st k = map_of st k"

definition setItem :: "string \<Rightarrow> stored \<Rightarrow> storage \<Rightarrow> storage" where
  "setItem k t st = AList.update k t st"

definition removeItem :: "string \<Rightarrow> storage \<Rightarrow> storage" where
  "removeItem k st = AList.delete k st"

definition JSON_stringify :: "jsval \<Rightarrow> stored" where
  "JSON_stringify v = Json (to_json v)"

fun JSON_parse :: "stored \<Rightarrow> exn + jsval" where
  "JSON_parse (Plain t) = Inl SyntaxError"
| "JSON_parse (Json v) = Inr v"

definition empty_text :: "stored \<Rightarrow> bool" where
  "empty_text t = (t = Plain [])"


section \<open>Message literals\<close>

text \<open>
  The user-visible messages of the source are Chinese string literals; each constant below
  is the UTF-8 encoding of one literal. Glosses, in source order:
  \<open>msg_please_login\<close> "please log in first";
  \<open>msg_upload_offline\<close> "network offline, data has been saved locally";
  \<open>msg_upload_failed\<close> "upload failed";
  \<open>msg_upload_neterr\<close> "network error, data has been saved locally";
  \<open>msg_delete_offline\<close> "network offline, operation has been saved locally";
  \<open>msg_delete_failed\<close> "delete failed";
  \<open>msg_delete_neterr\<close> "network error, operation has been saved locally";
  \<open>msg_offline_no_cache\<close> "network offline, no locally cached data";
  \<open>msg_download_failed\<close> "download failed";
  \<open>msg_network_error\<close> "network error";
  \<open>msg_invalid_username\<close> "please enter a valid user name";
  \<open>msg_password_too_short\<close> "password needs at least 6 characters";
  \<open>msg_login_failed\<close> "login failed";
  \<open>msg_network_retry\<close> "network error, please retry later";
  \<open>msg_bad_credentials\<close> "wrong user name or password";
  \<open>msg_server_error\<close> "server error";
  \<open>msg_month_id_empty\<close> "month id must not be empty";
  \<open>msg_month_name_empty\<close> "month name must not be empty";
  \<open>msg_not_found\<close> "data does not exist or no permission to delete".
\<close>

definition msg_please_login :: string where
  "msg_please_login =
     [CHR 0xE8, CHR 0xAF, CHR 0xB7, CHR 0xE5, CHR 0x85, CHR 0x88, CHR 0xE7, CHR 0x99,
      CHR 0xBB, CHR 0xE5, CHR 0xBD, CHR 0x95]"

definition msg_upload_offline :: string where
  "msg_upload_offline =
     [CHR 0xE7, CHR 0xBD, CHR 0x91, CHR 0xE7, CHR 0xBB, CHR 0x9C, CHR 0xE7, CHR 0xA6,
      CHR 0xBB, CHR 0xE7, CHR 0xBA, CHR 0xBF, CHR 0xEF, CHR 0xBC, CHR 0x8C, CHR 0xE6,
      CHR 0x95, CHR 0xB0, CHR 0xE6, CHR 0x8D, CHR 0xAE, CHR 0xE5, CHR 0xB7, CHR 0xB2,
      CHR 0xE4, CHR 0xBF, CHR 0x9D, CHR 0xE5, CHR 0xAD, CHR 0x98, CHR 0xE5, CHR 0x88,
      CHR 0xB0, CHR 0xE6, CHR 0x9C, CHR 0xAC, CHR 0xE5, CHR 0x9C, CHR 0xB0]"

definition msg_upload_failed :: string where
  "msg_upload_failed =
     [CHR 0xE4, CHR 0xB8, CHR 0x8A, CHR 0xE4, CHR 0xBC, CHR 0xA0, CHR 0xE5, CHR 0xA4,
      CHR 0xB1, CHR 0xE8, CHR 0xB4, CHR 0xA5]"

definition msg_upload_neterr :: string where
  "msg_upload_neterr =
     [CHR 0xE7, CHR 0xBD, CHR 0x91, CHR 0xE7, CHR 0xBB, CHR 0x9C, CHR 0xE9, CHR 0x94,
      CHR 0x99, CHR 0xE8, CHR 0xAF, CHR 0xAF, CHR 0xEF, CHR 0xBC, CHR 0x8C, CHR 0xE6,
      CHR 0x95, CHR 0xB0, CHR 0xE6, CHR 0x8D, CHR 0xAE, CHR 0xE5, CHR 0xB7, CHR 0xB2,
      CHR 0xE4, CHR 0xBF, CHR 0x9D, CHR 0xE5, CHR 0xAD, CHR 0x98, CHR 0xE5, CHR 0x88,
      CHR 0xB0, CHR 0xE6, CHR 0x9C, CHR 0xAC, CHR 0xE5, CHR 0x9C, CHR 0xB0]"

definition msg_delete_offline :: string where
  "msg_delete_offline =
     [CHR 0xE7, CHR 0xBD, CHR 0x91, CHR 0xE7, CHR 0xBB, CHR 0x9C, CHR 0xE7, CHR 0xA6,
      CHR 0xBB, CHR 0xE7, CHR 0xBA, CHR 0xBF, CHR 0xEF, CHR 0xBC, CHR 0x8C, CHR 0xE6,
      CHR 0x93, CHR 0x8D, CHR 0xE4, CHR 0xBD, CHR 0x9C, CHR 0xE5, CHR 0xB7, CHR 0xB2,
      CHR 0xE4, CHR 0xBF, CHR 0x9D, CHR 0xE5, CHR 0xAD, CHR 0x98, CHR 0xE5, CHR 0x88,
      CHR 0xB0, CHR 0xE6, CHR 0x9C, CHR 0xAC, CHR 0xE5, CHR 0x9C, CHR 0xB0]"

definition msg_delete_failed :: string where
  "msg_delete_failed =
     [CHR 0xE5, CHR 0x88, CHR 0xA0, CHR 0xE9, CHR 0x99, CHR 0xA4, CHR 0xE5, CHR 0xA4,
      CHR 0xB1, CHR 0xE8, CHR 0xB4, CHR 0xA5]"

definition msg_delete_neterr :: string where
  "msg_delete_neterr =
     [CHR 0xE7, CHR 0xBD, CHR 0x91, CHR 0xE7, CHR 0xBB, CHR 0x9C, CHR 0xE9, CHR 0x94,
      CHR 0x99, CHR 0xE8, CHR 0xAF, CHR 0xAF, CHR 0xEF, CHR 0xBC, CHR 0x8C, CHR 0xE6,
      CHR 0x93, CHR 0x8D, CHR 0xE4, CHR 0xBD, CHR 0x9C, CHR 0xE5, CHR 0xB7, CHR 0xB2,
      CHR 0xE4, CHR 0xBF, CHR 0x9D, CHR 0xE5, CHR 0xAD, CHR 0x98, CHR 0xE5, CHR 0x88,
      CHR 0xB0, CHR 0xE6, CHR 0x9C, CHR 0xAC, CHR 0xE5, CHR 0x9C, CHR 0xB0]"

definition msg_offline_no_cache :: string where
  "msg_offline_no_cache =
     [CHR 0xE7, CHR 0xBD, CHR 0x91, CHR 0xE7, CHR 0xBB, CHR 0x9C, CHR 0xE7, CHR 0xA6,
      CHR 0xBB, CHR 0xE7, CHR 0xBA, CHR 0xBF, CHR 0xEF, CHR 0xBC, CHR 0x8C, CHR 0xE6,
      CHR 0x97, CHR 0xA0, CHR 0xE6, CHR 0x9C, CHR 0xAC, CHR 0xE5, CHR 0x9C, CHR 0xB0,
      CHR 0xE7, CHR 0xBC, CHR 0x93, CHR 0xE5, CHR 0xAD, CHR 0x98, CHR 0xE6, CHR 0x95,
      CHR 0xB0, CHR 0xE6, CHR 0x8D, CHR 0xAE]"

definition msg_download_failed :: string where
  "msg_download_failed =
     [CHR 0xE4, CHR 0xB8, CHR 0x8B, CHR 0xE8, CHR 0xBD, CHR 0xBD, CHR 0xE5, CHR 0xA4,
      CHR 0xB1, CHR 0xE8, CHR 0xB4, CHR 0xA5]"

definition msg_network_error :: string where
  "msg_network_error =
     [CHR 0xE7, CHR 0xBD, CHR 0x91, CHR 0xE7, CHR 0xBB, CHR 0x9C, CHR 0xE9, CHR 0x94,
      CHR 0x99, CHR 0xE8, CHR 0xAF, CHR 0xAF]"

definition msg_invalid_username :: string where
  "msg_invalid_username =
     [CHR 0xE8, CHR 0xAF, CHR 0xB7, CHR 0xE8, CHR 0xBE, CHR 0x93, CHR 0xE5, CHR 0x85,
      CHR 0xA5, CHR 0xE6, CHR 0x9C, CHR 0x89, CHR 0xE6, CHR 0x95, CHR 0x88, CHR 0xE7,
      CHR 0x94, CHR 0xA8, CHR 0xE6, CHR 0x88, CHR 0xB7, CHR 0xE5, CHR 0x90, CHR 0x8D]"

definition msg_password_too_short :: string where
  "msg_password_too_short =
     [CHR 0xE5, CHR 0xAF, CHR 0x86, CHR 0xE7, CHR 0xA0, CHR 0x81, CHR 0xE9, CHR 0x95,
      CHR 0xBF, CHR 0xE5, CHR 0xBA, CHR 0xA6, CHR 0xE8, CHR 0x87, CHR 0xB3, CHR 0xE5,
      CHR 0xB0, CHR 0x91, CHR ''6'', CHR 0xE4, CHR 0xBD, CHR 0x8D]"

definition msg_login_failed :: string where
  "msg_login_failed =
     [CHR 0xE7, CHR 0x99, CHR 0xBB, CHR 0xE5, CHR 0xBD, CHR 0x95, CHR 0xE5, CHR 0xA4,
      CHR 0xB1, CHR 0xE8, CHR 0xB4, CHR 0xA5]"

definition msg_network_retry :: string where
  "msg_network_retry =
     [CHR 0xE7, CHR 0xBD, CHR 0x91, CHR 0xE7, CHR 0xBB, CHR 0x9C, CHR 0xE9, CHR 0x94,
      CHR 0x99, CHR 0xE8, CHR 0xAF, CHR 0xAF, CHR 0xEF, CHR 0xBC, CHR 0x8C, CHR 0xE8,
      CHR 0xAF, CHR 0xB7, CHR 0xE7, CHR 0xA8, CHR 0x8D, CHR 0xE5, CHR 0x90, CHR 0x8E,
      CHR 0xE9, CHR 0x87, CHR 0x8D, CHR 0xE8, CHR 0xAF, CHR 0x95]"

definition msg_bad_credentials :: string where
  "msg_bad_credentials =
     [CHR 0xE7, CHR 0x94, CHR 0xA8, CHR 0xE6, CHR 0x88, CHR 0xB7, CHR 0xE5, CHR 0x90,
      CHR 0x8D, CHR 0xE6, CHR 0x88, CHR 0x96, CHR 0xE5, CHR 0xAF, CHR 0x86, CHR 0xE7,
      CHR 0xA0, CHR 0x81, CHR 0xE9, CHR 0x94, CHR 0x99, CHR 0xE8, CHR 0xAF, CHR 0xAF]"

definition msg_server_error :: string where
  "msg_server_error =
     [CHR 0xE6, CHR 0x9C, CHR 0x8D, CHR 0xE5, CHR 0x8A, CHR 0xA1, CHR 0xE5, CHR 0x99,
      CHR 0xA8, CHR 0xE9, CHR 0x94, CHR 0x99, CHR 0xE8, CHR 0xAF, CHR 0xAF]"

definition msg_month_id_empty :: string where
  "msg_month_id_empty =
     [CHR 0xE6, CHR 0x9C, CHR 0x88, CHR 0xE4, CHR 0xBB, CHR 0xBD, CHR ''I'', CHR ''D'',
      CHR 0xE4, CHR 0xB8, CHR 0x8D, CHR 0xE8, CHR 0x83, CHR 0xBD, CHR 0xE4, CHR 0xB8,
      CHR 0xBA, CHR 0xE7, CHR 0xA9, CHR 0xBA]"

definition msg_month_name_empty :: string where
  "msg_month_name_empty =
     [CHR 0xE6, CHR 0x9C, CHR 0x88, CHR 0xE4, CHR 0xBB, CHR 0xBD, CHR 0xE5, CHR 0x90,
      CHR 0x8D, CHR 0xE7, CHR 0xA7, CHR 0xB0, CHR 0xE4, CHR 0xB8, CHR 0x8D, CHR 0xE8,
      CHR 0x83, CHR 0xBD, CHR 0xE4, CHR 0xB8, CHR 0xBA, CHR 0xE7, CHR 0xA9, CHR 0xBA]"

definition msg_not_found :: string where
  "msg_not_found =
     [CHR 0xE6, CHR 0x95, CHR 0xB0, CHR 0xE6, CHR 0x8D, CHR 0xAE, CHR 0xE4, CHR 0xB8,
      CHR 0x8D, CHR 0xE5, CHR 0xAD, CHR 0x98, CHR 0xE5, CHR 0x9C, CHR 0xA8, CHR 0xE6,
      CHR 0x88, CHR 0x96, CHR 0xE6, CHR 0x97, CHR 0xA0, CHR 0xE6, CHR 0x9D, CHR 0x83,
      CHR 0xE9, CHR 0x99, CHR 0x90, CHR 0xE5, CHR 0x88, CHR 0xA0, CHR 0xE9, CHR 0x99,
      CHR 0xA4]"

section \<open>LocalCacheManager\<close>

definition CACHE_KEY_PREFIX :: string where
  "CACHE_KEY_PREFIX = ''sales_data_cache_''"

definition PENDING_OPS_KEY :: string where
  "PENDING_OPS_KEY = ''sales_data_pending_ops''"

definition cache_key :: "jsval \<Rightarrow> string" where
  "cache_key userId = CACHE_KEY_PREFIX @ js_to_string userId"

text \<open>The object literal \<^verbatim>\<open>{...d, k: v}\<close>.\<close>

definition spread_with :: "jsval \<Rightarrow> string \<Rightarrow> jsval \<Rightarrow> jsval" where
  "spread_with d k v = Obj (AList.update k v (own_props d))"

text \<open>\<^verbatim>\<open>v instanceof Date ? v.toISOString() : v\<close>; an invalid date throws a
  \<^verbatim>\<open>RangeError\<close>.\<close>

fun iso_or_same :: "jsval \<Rightarrow> exn + jsval" where
  "iso_or_same (Date None) = Inl RangeError"
| "iso_or_same (Date (Some t)) = Inr (Str t)"
| "iso_or_same v = Inr v"

text \<open>\<^verbatim>\<open>data.map(f)\<close>: only an array has \<^verbatim>\<open>map\<close>.\<close>

fun js_map :: "(jsval \<Rightarrow> exn + jsval) \<Rightarrow> jsval \<Rightarrow> exn + jsval list" where
  "js_map f (Arr xs) = map_exn f xs"
| "js_map f v = Inl TypeError"

text \<open>The callback of \<^verbatim>\<open>cacheData\<close>, the body of its try block, and the function.\<close>

definition cache_entry :: "jsval \<Rightarrow> exn + jsval" where
  "cache_entry d =
     (case get_prop d ''importedAt'' of
        Inl e \<Rightarrow> Inl e
      | Inr v \<Rightarrow>
          (case iso_or_same v of
             Inl e \<Rightarrow> Inl e
           | Inr w \<Rightarrow> Inr (spread_with d ''importedAt'' w)))"

definition cacheData_try :: "jsval \<Rightarrow> jsval \<Rightarrow> storage \<Rightarrow> exn + storage" where
  "cacheData_try userId data st =
     (case js_map cache_entry data of
        Inl e \<Rightarrow> Inl e
      | Inr ys \<Rightarrow> Inr (setItem (cache_key userId) (JSON_stringify (Arr ys)) st))"

definition cacheData :: "jsval \<Rightarrow> jsval \<Rightarrow> storage \<Rightarrow> exn + storage" where
  "cacheData userId data st =
     (if \<not> truthy userId then Inr st
      else (case cacheData_try userId data st of
              Inl e \<Rightarrow> Inr st
            | Inr st' \<Rightarrow> Inr st'))"

text \<open>
  \<^verbatim>\<open>getCachedData\<close>. The constructor \<^verbatim>\<open>new Date(v)\<close> is the parameter \<open>newDate\<close>:
  it gives the ISO form of the date built from \<open>v\<close>, or \<open>None\<close> for an invalid date.
\<close>

definition revive :: "(jsval \<Rightarrow> string option) \<Rightarrow> jsval \<Rightarrow> exn + jsval" where
  "revive newDate d =
     (case get_prop d ''importedAt'' of
        Inl e \<Rightarrow> Inl e
      | Inr v \<Rightarrow> Inr (spread_with d ''importedAt'' (Date (newDate v))))"

definition getCachedData_try ::
  "(jsval \<Rightarrow> string option) \<Rightarrow> jsval \<Rightarrow> storage \<Rightarrow> exn + jsval list" where
  "getCachedData_try newDate userId st =
     (case getItem st (cache_key userId) of
        None \<Rightarrow> Inr []
      | Some serialized \<Rightarrow>
          if empty_text serialized then Inr []
          else (case JSON_parse serialized of
                  Inl e \<Rightarrow> Inl e
                | Inr data \<Rightarrow> js_map (revive newDate) data))"

definition getCachedData ::
  "(jsval \<Rightarrow> string option) \<Rightarrow> jsval \<Rightarrow> storage \<Rightarrow> exn + jsval list" where
  "getCachedData newDate userId st =
     (if \<not> truthy userId then Inr []
      else (case getCachedData_try newDate userId st of
              Inl e \<Rightarrow> Inr []
            | Inr xs \<Rightarrow> Inr xs))"

text \<open>
  The pending-operation log. The three functions are one try block each whose handler only
  logs, so they return normally on every input. \<^verbatim>\<open>ops.push\<close> exists on arrays only.
\<close>

definition getPendingOperations :: "storage \<Rightarrow> jsval" where
  "getPendingOperations st =
     (case getItem st PENDING_OPS_KEY of
        None \<Rightarrow> Arr []
      | Some serialized \<Rightarrow>
          if empty_text serialized then Arr []
          else (case JSON_parse serialized of Inl e \<Rightarrow> Arr [] | Inr v \<Rightarrow> v))"

fun js_push :: "jsval \<Rightarrow> jsval \<Rightarrow> exn + jsval" where
  "js_push (Arr ops) x = Inr (Arr (ops @ [x]))"
| "js_push v x = Inl TypeError"

definition addPendingOperation :: "jsval \<Rightarrow> storage \<Rightarrow> storage" where
  "addPendingOperation operation st =
     (case js_push (getPendingOperations st) operation of
        Inl e \<Rightarrow> st
      | Inr ops \<Rightarrow> setItem PENDING_OPS_KEY (JSON_stringify ops) st)"

definition clearPendingOperations :: "storage \<Rightarrow> storage" where
  "clearPendingOperations st = removeItem PENDING_OPS_KEY st"

definition clearUserCache :: "jsval \<Rightarrow> storage \<Rightarrow> storage" where
  "clearUserCache userId st =
     (if \<not> truthy userId then st else removeItem (cache_key userId) st)"

text \<open>
  \<^verbatim>\<open>clearAllCache\<close>: the index loop collects the keys that start with the prefix, then
  each is removed, then the pending operations are cleared.
\<close>

definition startsWith :: "string \<Rightarrow> string \<Rightarrow> bool" where
  "startsWith key p = (take (length p) key = p)"

definition keysToRemove :: "storage \<Rightarrow> string list" where
  "keysToRemove st =
     foldl (\<lambda>acc i. let key = fst (st ! i)
                     in if key \<noteq> [] \<and> startsWith key CACHE_KEY_PREFIX then acc @ [key] else acc)
       [] [0..<length st]"

definition clearAllCache :: "storage \<Rightarrow> storage" where
  "clearAllCache st =
     clearPendingOperations (foldl (\<lambda>s key. removeItem key s) st (keysToRemove st))"


section \<open>Client state and the remote service\<close>

text \<open>
  The module-level singletons \<^verbatim>\<open>AuthManager.token\<close>, \<^verbatim>\<open>AuthManager.currentUser\<close>,
  \<^verbatim>\<open>CloudSyncManager.syncStatus\<close>, \<^verbatim>\<open>CloudSyncManager.lastSyncTime\<close> and
  \<^verbatim>\<open>localStorage\<close> form the client state, together with what the platform reports:
  \<^verbatim>\<open>navigator.onLine\<close> (\<open>None\<close> when there is no \<^verbatim>\<open>navigator\<close>) and the clock read
  by \<^verbatim>\<open>Date.now()\<close>; both are constant during one operation.
\<close>

datatype sync_status = Idle | Syncing | Error | Offline

record client =
  token :: jsval
  currentUser :: jsval
  syncStatus :: sync_status
  lastSyncTime :: "int option"
  localStorage :: storage
  navigator_onLine :: "bool option"
  clock :: int

text \<open>
  A request as \<^verbatim>\<open>fetch\<close> sends it (the data routes carry the \<^verbatim>\<open>Authorization\<close>
  header) and what \<^verbatim>\<open>await response.json()\<close> gives: a parsed body, or an exception when
  the request or the parsing fails. The remote service is a parameter
  \<open>fetch :: request \<Rightarrow> 'w \<Rightarrow> fetch_result \<times> 'w\<close> over a state \<open>'w\<close> of its own.
\<close>

datatype request =
    POST_login jsval
  | POST_data string jsval
  | DELETE_data string string
  | GET_data string

datatype fetch_result = Threw | Responded jsval

text \<open>
  The object a client operation resolves to; an absent field is \<open>Undefined\<close>.
\<close>

record result =
  success :: bool
  res_id :: jsval
  res_data :: jsval
  error :: jsval

definition failure :: "jsval \<Rightarrow> result" where
  "failure e = \<lparr>success = False, res_id = Undefined, res_data = Undefined, error = e\<rparr>"

record sync_result =
  sync_success :: bool
  synced :: nat
  failed :: nat

section \<open>AuthManager\<close>

definition AUTH_TOKEN_KEY :: string where
  "AUTH_TOKEN_KEY = ''sales_data_auth_token''"

definition AUTH_USER_KEY :: string where
  "AUTH_USER_KEY = ''sales_data_auth_user''"

text \<open>
  A string is held in UTF-8, like the message literals.
  \<open>code_points\<close> splits a string into its characters: a byte together with every
  continuation byte (\<^verbatim>\<open>10xxxxxx\<close>) that follows it. \<open>str_length\<close> is
  \<^verbatim>\<open>.length\<close>, the number of UTF-16 code units: two for a character whose first byte
  announces four bytes (a code point above \<^verbatim>\<open>U+FFFF\<close>), one for any other.
\<close>

definition is_continuation :: "char \<Rightarrow> bool" where
  "is_continuation c = (128 \<le> (of_char c :: nat) \<and> (of_char c :: nat) < 192)"

function code_points :: "string \<Rightarrow> string list" where
  "code_points [] = []"
| "code_points (c # s) =
     (c # takeWhile is_continuation s) # code_points (dropWhile is_continuation s)"
  by pat_completeness auto

termination code_points
  by (relation "measure length") (simp_all add: less_Suc_eq_le length_dropWhile_le)

definition str_length :: "string \<Rightarrow> nat" where
  "str_length s =
     sum_list (map (\<lambda>p. if 240 \<le> (of_char (hd p) :: nat) then 2 else 1) (code_points s))"

text \<open>
  \<^verbatim>\<open>String.prototype.trim\<close> removes from both ends the characters of
  \<^verbatim>\<open>WhiteSpace\<close> and \<^verbatim>\<open>LineTerminator\<close>: \<^verbatim>\<open>U+0009\<close> to
  \<^verbatim>\<open>U+000D\<close>, \<^verbatim>\<open>U+0020\<close>, \<^verbatim>\<open>U+00A0\<close>, \<^verbatim>\<open>U+1680\<close>,
  \<^verbatim>\<open>U+2000\<close> to \<^verbatim>\<open>U+200A\<close>, \<^verbatim>\<open>U+2028\<close>, \<^verbatim>\<open>U+2029\<close>,
  \<^verbatim>\<open>U+202F\<close>, \<^verbatim>\<open>U+205F\<close>, \<^verbatim>\<open>U+3000\<close> and \<^verbatim>\<open>U+FEFF\<close>, listed
  here in their encoding.
\<close>

definition white_space :: "string list" where
  "white_space =
     [[CHR 0x09], [CHR 0x0A], [CHR 0x0B], [CHR 0x0C], [CHR 0x0D], [CHR 0x20],
      [CHR 0xC2, CHR 0xA0], [CHR 0xE1, CHR 0x9A, CHR 0x80],
      [CHR 0xE2, CHR 0x80, CHR 0x80], [CHR 0xE2, CHR 0x80, CHR 0x81],
      [CHR 0xE2, CHR 0x80, CHR 0x82], [CHR 0xE2, CHR 0x80, CHR 0x83],
      [CHR 0xE2, CHR 0x80, CHR 0x84], [CHR 0xE2, CHR 0x80, CHR 0x85],
      [CHR 0xE2, CHR 0x80, CHR 0x86], [CHR 0xE2, CHR 0x80, CHR 0x87],
      [CHR 0xE2, CHR 0x80, CHR 0x88], [CHR 0xE2, CHR 0x80, CHR 0x89],
      [CHR 0xE2, CHR 0x80, CHR 0x8A], [CHR 0xE2, CHR 0x80, CHR 0xA8],
      [CHR 0xE2, CHR 0x80, CHR 0xA9], [CHR 0xE2, CHR 0x80, CHR 0xAF],
      [CHR 0xE2, CHR 0x81, CHR 0x9F], [CHR 0xE3, CHR 0x80, CHR 0x80],
      [CHR 0xEF, CHR 0xBB, CHR 0xBF]]"

definition is_space :: "string \<Rightarrow> bool" where
  "is_space p = (p \<in> set white_space)"

definition trim :: "string \<Rightarrow> string" where
  "trim s = concat (rev (dropWhile is_space (rev (dropWhile is_space (code_points s)))))"

text \<open>The validators give the error message, \<open>None\<close> for a valid input.\<close>

fun validateUsername :: "jsval \<Rightarrow> string option" where
  "validateUsername (Str s) =
     (if s = [] then Some msg_invalid_username
      else if str_length (trim s) = 0 then Some msg_invalid_username
      else None)"
| "validateUsername v = Some msg_invalid_username"

fun validatePassword :: "jsval \<Rightarrow> string option" where
  "validatePassword (Str s) =
     (if s = [] then Some msg_password_too_short
      else if str_length s < 6 then Some msg_password_too_short
      else None)"
| "validatePassword v = Some msg_password_too_short"

definition isLoggedIn :: "client \<Rightarrow> bool" where
  "isLoggedIn c = (token c \<noteq> Null \<and> currentUser c \<noteq> Null)"

definition saveSession :: "client \<Rightarrow> client" where
  "saveSession c =
     (let st1 = (if truthy (token c)
                 then setItem AUTH_TOKEN_KEY (Plain (js_to_string (token c))) (localStorage c)
                 else localStorage c);
          st2 = (if truthy (currentUser c)
                 then setItem AUTH_USER_KEY (JSON_stringify (currentUser c)) st1
                 else st1)
      in c\<lparr>localStorage := st2\<rparr>)"

definition clearSession :: "storage \<Rightarrow> storage" where
  "clearSession st = removeItem AUTH_USER_KEY (removeItem AUTH_TOKEN_KEY st)"

definition logout :: "client \<Rightarrow> client" where
  "logout c = c\<lparr>token := Null, currentUser := Null, localStorage := clearSession (localStorage c)\<rparr>"

fun str_of :: "jsval \<Rightarrow> string" where
  "str_of (Str s) = s"
| "str_of v = []"

text \<open>
  \<^verbatim>\<open>AuthManager.login\<close>. After the two validations \<open>username\<close> is a string, so
  \<^verbatim>\<open>username.trim()\<close> is \<open>trim (str_of username)\<close>. A \<^verbatim>\<open>TypeError\<close> on
  \<^verbatim>\<open>data.success\<close> lands in the catch block like a failed request.
\<close>

definition login ::
  "(request \<Rightarrow> 'w \<Rightarrow> fetch_result \<times> 'w) \<Rightarrow> jsval \<Rightarrow> jsval \<Rightarrow> client \<Rightarrow> 'w
     \<Rightarrow> result \<times> client \<times> 'w" where
  "login fetch username password c w =
     (case validateUsername username of
        Some e \<Rightarrow> (failure (Str e), c, w)
      | None \<Rightarrow>
     (case validatePassword password of
        Some e \<Rightarrow> (failure (Str e), c, w)
      | None \<Rightarrow>
     (case fetch (POST_login (to_json (Obj [(''username'', Str (trim (str_of username))),
                                           (''password'', password)]))) w of
        (Threw, w') \<Rightarrow> (failure (Str msg_network_retry), c, w')
      | (Responded data, w') \<Rightarrow>
          (case get_prop data ''success'' of
             Inl e \<Rightarrow> (failure (Str msg_network_retry), c, w')
           | Inr s \<Rightarrow>
               if truthy s \<and> truthy (opt_prop data ''token'')
               then (\<lparr>success = True, res_id = Undefined, res_data = Undefined,
                      error = Undefined\<rparr>,
                     saveSession (c\<lparr>token := opt_prop data ''token'',
                                    currentUser := opt_prop data ''user''\<rparr>), w')
               else (failure (js_or (opt_prop data ''error'') (Str msg_login_failed)), c, w')))))"

section \<open>CloudSyncManager\<close>

text \<open>
  \<^verbatim>\<open>_setSyncStatus\<close> also dispatches a \<^verbatim>\<open>syncStatusChange\<close> event; its only listener
  repaints the status indicator, which is outside the model.
\<close>

definition setSyncStatus :: "sync_status \<Rightarrow> client \<Rightarrow> client" where
  "setSyncStatus s c = c\<lparr>syncStatus := s\<rparr>"

definition isOnline :: "client \<Rightarrow> bool" where
  "isOnline c = (case navigator_onLine c of None \<Rightarrow> True | Some b \<Rightarrow> b)"

definition getAuthHeader :: "client \<Rightarrow> string" where
  "getAuthHeader c = (if truthy (token c) then ''Bearer '' @ js_to_string (token c) else [])"

definition currentUserId :: "client \<Rightarrow> jsval" where
  "currentUserId c = opt_prop (currentUser c) ''id''"

definition pend :: "jsval \<Rightarrow> client \<Rightarrow> client" where
  "pend operation c = c\<lparr>localStorage := addPendingOperation operation (localStorage c)\<rparr>"

definition upload_op :: "jsval \<Rightarrow> int \<Rightarrow> jsval" where
  "upload_op monthData now =
     Obj [(''type'', Str ''upload''), (''data'', monthData), (''timestamp'', Num now)]"

definition delete_op :: "jsval \<Rightarrow> int \<Rightarrow> jsval" where
  "delete_op monthId now =
     Obj [(''type'', Str ''delete''), (''monthId'', monthId), (''timestamp'', Num now)]"

text \<open>
  \<^verbatim>\<open>uploadData\<close> and \<^verbatim>\<open>deleteData\<close>. Nothing before their try block can throw, and
  the catch block handles a failed request, an unparsable response and a \<^verbatim>\<open>TypeError\<close> on
  \<^verbatim>\<open>data.success\<close> alike, so both always resolve.
\<close>

definition uploadData ::
  "(request \<Rightarrow> 'w \<Rightarrow> fetch_result \<times> 'w) \<Rightarrow> jsval \<Rightarrow> client \<Rightarrow> 'w \<Rightarrow> result \<times> client \<times> 'w" where
  "uploadData fetch monthData c w =
     (if \<not> isLoggedIn c then (failure (Str msg_please_login), c, w)
      else if \<not> isOnline c then
        (failure (Str msg_upload_offline),
         pend (upload_op monthData (clock c)) (setSyncStatus Offline c), w)
      else
        (let c1 = setSyncStatus Syncing c;
             caught = (\<lambda>w'. (failure (Str msg_upload_neterr),
                              pend (upload_op monthData (clock c)) (setSyncStatus Error c1), w'))
         in case fetch (POST_data (getAuthHeader c1) (to_json (Obj [(''monthData'', monthData)]))) w of
              (Threw, w') \<Rightarrow> caught w'
            | (Responded data, w') \<Rightarrow>
                (case get_prop data ''success'' of
                   Inl e \<Rightarrow> caught w'
                 | Inr s \<Rightarrow>
                     if truthy s
                     then (\<lparr>success = True, res_id = opt_prop data ''id'', res_data = Undefined,
                            error = Undefined\<rparr>,
                           (setSyncStatus Idle c1)\<lparr>lastSyncTime := Some (clock c)\<rparr>, w')
                     else (failure (js_or (opt_prop data ''error'') (Str msg_upload_failed)),
                           setSyncStatus Error c1, w'))))"

definition deleteData ::
  "(request \<Rightarrow> 'w \<Rightarrow> fetch_result \<times> 'w) \<Rightarrow> jsval \<Rightarrow> client \<Rightarrow> 'w \<Rightarrow> result \<times> client \<times> 'w" where
  "deleteData fetch monthId c w =
     (if \<not> isLoggedIn c then (failure (Str msg_please_login), c, w)
      else if \<not> isOnline c then
        (failure (Str msg_delete_offline),
         pend (delete_op monthId (clock c)) (setSyncStatus Offline c), w)
      else
        (let c1 = setSyncStatus Syncing c;
             caught = (\<lambda>w'. (failure (Str msg_delete_neterr),
                              pend (delete_op monthId (clock c)) (setSyncStatus Error c1), w'))
         in case fetch (DELETE_data (getAuthHeader c1) (js_to_string monthId)) w of
              (Threw, w') \<Rightarrow> caught w'
            | (Responded data, w') \<Rightarrow>
                (case get_prop data ''success'' of
                   Inl e \<Rightarrow> caught w'
                 | Inr s \<Rightarrow>
                     if truthy s
                     then (\<lparr>success = True, res_id = Undefined, res_data = Undefined,
                            error = Undefined\<rparr>,
                           (setSyncStatus Idle c1)\<lparr>lastSyncTime := Some (clock c)\<rparr>, w')
                     else (failure (js_or (opt_prop data ''error'') (Str msg_delete_failed)),
                           setSyncStatus Error c1, w'))))"


text \<open>
  \<^verbatim>\<open>downloadAllData\<close>. \<open>cached_or\<close> is the common tail of the offline branch and of the
  catch block: the cached records when there are some, else a failure with the given message.
  An exception outside the try block would reject the promise: \<open>Inl\<close>, with the state
  reached so far.
\<close>

definition cached_or :: "jsval list \<Rightarrow> string \<Rightarrow> result" where
  "cached_or cachedData msg =
     (if cachedData \<noteq> []
      then \<lparr>success = True, res_id = Undefined, res_data = Arr cachedData, error = Undefined\<rparr>
      else failure (Str msg))"

definition download_caught ::
  "(jsval \<Rightarrow> string option) \<Rightarrow> client \<Rightarrow> 'w \<Rightarrow> exn \<times> client \<times> 'w + result \<times> client \<times> 'w" where
  "download_caught newDate c w =
     (let c' = setSyncStatus Error c
      in case getCachedData newDate (currentUserId c') (localStorage c') of
           Inl e \<Rightarrow> Inl (e, c', w)
         | Inr cachedData \<Rightarrow> Inr (cached_or cachedData msg_network_error, c', w))"

definition downloadAllData ::
  "(jsval \<Rightarrow> string option) \<Rightarrow> (request \<Rightarrow> 'w \<Rightarrow> fetch_result \<times> 'w) \<Rightarrow> client \<Rightarrow> 'w
     \<Rightarrow> exn \<times> client \<times> 'w + result \<times> client \<times> 'w" where
  "downloadAllData newDate fetch c w =
     (if \<not> isLoggedIn c then Inr (failure (Str msg_please_login), c, w)
      else if \<not> isOnline c then
        (let c1 = setSyncStatus Offline c
         in case getCachedData newDate (currentUserId c1) (localStorage c1) of
              Inl e \<Rightarrow> Inl (e, c1, w)
            | Inr cachedData \<Rightarrow> Inr (cached_or cachedData msg_offline_no_cache, c1, w))
      else
        (let c1 = setSyncStatus Syncing c
         in case fetch (GET_data (getAuthHeader c1)) w of
              (Threw, w') \<Rightarrow> download_caught newDate c1 w'
            | (Responded r, w') \<Rightarrow>
                (case get_prop r ''success'' of
                   Inl e \<Rightarrow> download_caught newDate c1 w'
                 | Inr s \<Rightarrow>
                     if truthy s
                     then
                       (let c2 = (setSyncStatus Idle c1)\<lparr>lastSyncTime := Some (clock c)\<rparr>;
                            userId = currentUserId c2;
                            d = js_or (opt_prop r ''data'') (Arr [])
                        in case (if truthy userId then cacheData userId d (localStorage c2)
                                 else Inr (localStorage c2)) of
                             Inl e \<Rightarrow> download_caught newDate c2 w'
                           | Inr st' \<Rightarrow>
                               Inr (\<lparr>success = True, res_id = Undefined, res_data = d,
                                     error = Undefined\<rparr>,
                                    c2\<lparr>localStorage := st'\<rparr>, w'))
                     else Inr (failure (js_or (opt_prop r ''error'') (Str msg_download_failed)),
                               setSyncStatus Error c1, w'))))"

text \<open>
  \<^verbatim>\<open>syncPendingOperations\<close>. \<^verbatim>\<open>pendingOps.length\<close> and the \<^verbatim>\<open>for ... of\<close> loop
  are outside every try block: a \<^verbatim>\<open>TypeError\<close> there rejects the promise. The loop body
  is one try block: a \<^verbatim>\<open>TypeError\<close> on \<^verbatim>\<open>op.type\<close> counts as a failure, and an
  operation of another type counts as nothing.
\<close>

fun js_length :: "jsval \<Rightarrow> exn + jsval" where
  "js_length Undefined = Inl TypeError"
| "js_length Null = Inl TypeError"
| "js_length (Arr xs) = Inr (Num (int (length xs)))"
| "js_length (Str s) = Inr (Num (int (length s)))"
| "js_length (Obj kvs) = Inr (case map_of kvs ''length'' of None \<Rightarrow> Undefined | Some v \<Rightarrow> v)"
| "js_length v = Inr Undefined"

fun js_iterate :: "jsval \<Rightarrow> exn + jsval list" where
  "js_iterate (Arr xs) = Inr xs"
| "js_iterate (Str s) = Inr (map (\<lambda>c. Str [c]) s)"
| "js_iterate v = Inl TypeError"

definition replay_op ::
  "(request \<Rightarrow> 'w \<Rightarrow> fetch_result \<times> 'w) \<Rightarrow> jsval \<Rightarrow> client \<times> 'w \<times> nat \<times> nat
     \<Rightarrow> client \<times> 'w \<times> nat \<times> nat" where
  "replay_op fetch operation a =
     (case a of (c, w, n_synced, n_failed) \<Rightarrow>
        (case get_prop operation ''type'' of
           Inl e \<Rightarrow> (c, w, n_synced, n_failed + 1)
         | Inr ty \<Rightarrow>
             if ty = Str ''upload'' then
               (case uploadData fetch (opt_prop operation ''data'') c w of
                  (r, c', w') \<Rightarrow>
                    if success r then (c', w', n_synced + 1, n_failed)
                    else (c', w', n_synced, n_failed + 1))
             else if ty = Str ''delete'' then
               (case deleteData fetch (opt_prop operation ''monthId'') c w of
                  (r, c', w') \<Rightarrow>
                    if success r then (c', w', n_synced + 1, n_failed)
                    else (c', w', n_synced, n_failed + 1))
             else (c, w, n_synced, n_failed)))"

fun replay ::
  "(request \<Rightarrow> 'w \<Rightarrow> fetch_result \<times> 'w) \<Rightarrow> jsval list \<Rightarrow> client \<times> 'w \<times> nat \<times> nat
     \<Rightarrow> client \<times> 'w \<times> nat \<times> nat" where
  "replay fetch [] a = a"
| "replay fetch (operation # ops) a = replay fetch ops (replay_op fetch operation a)"

definition syncPendingOperations ::
  "(request \<Rightarrow> 'w \<Rightarrow> fetch_result \<times> 'w) \<Rightarrow> client \<Rightarrow> 'w
     \<Rightarrow> exn \<times> client \<times> 'w + sync_result \<times> client \<times> 'w" where
  "syncPendingOperations fetch c w =
     (if \<not> isOnline c then Inr (\<lparr>sync_success = False, synced = 0, failed = 0\<rparr>, c, w)
      else
        (let pendingOps = getPendingOperations (localStorage c)
         in case js_length pendingOps of
              Inl e \<Rightarrow> Inl (e, c, w)
            | Inr len \<Rightarrow>
                if len = Num 0 then Inr (\<lparr>sync_success = True, synced = 0, failed = 0\<rparr>, c, w)
                else
                  (let c1 = setSyncStatus Syncing c
                   in case js_iterate pendingOps of
                        Inl e \<Rightarrow> Inl (e, c1, w)
                      | Inr ops \<Rightarrow>
                          (case replay fetch ops (c1, w, 0, 0) of
                             (c2, w2, n_synced, n_failed) \<Rightarrow>
                               (let c3 = (if n_synced > 0
                                          then c2\<lparr>localStorage :=
                                                   clearPendingOperations (localStorage c2)\<rparr>
                                          else c2);
                                    c4 = setSyncStatus (if n_failed > 0 then Error else Idle) c3
                                in Inr (\<lparr>sync_success = (n_failed = 0), synced = n_synced,
                                         failed = n_failed\<rparr>, c4, w2))))))"

section \<open>AuthUI.handleLogout\<close>

text \<open>
  Of \<^verbatim>\<open>handleLogout\<close> the model keeps what touches the client state:
  \<^verbatim>\<open>AuthManager.logout()\<close>, \<^verbatim>\<open>clearUserCache\<close> under its guard,
  \<^verbatim>\<open>clearAllCache\<close>, and the probe key that \<^verbatim>\<open>StorageManager.isAvailable\<close> writes and
  removes when \<^verbatim>\<open>StateManager.init()\<close> reloads the local data.
  \<^verbatim>\<open>updateHeaderUserStatus(null)\<close>, \<^verbatim>\<open>this.updateSyncStatus('idle')\<close>,
  \<^verbatim>\<open>UI.renderMonthsData()\<close> and \<^verbatim>\<open>UI.showMessage\<close> write to the page only:
  \<^verbatim>\<open>AuthUI.updateSyncStatus\<close> repaints (here: hides) the indicator and does not assign
  \<^verbatim>\<open>CloudSyncManager.syncStatus\<close>.
\<close>

definition STORAGE_TEST_KEY :: string where
  "STORAGE_TEST_KEY = ''__storage_test__''"

definition isAvailable_probe :: "storage \<Rightarrow> storage" where
  "isAvailable_probe st =
     removeItem STORAGE_TEST_KEY (setItem STORAGE_TEST_KEY (Plain STORAGE_TEST_KEY) st)"

definition handleLogout :: "client \<Rightarrow> client" where
  "handleLogout c =
     (let userId = currentUserId c;
          c1 = logout c;
          st2 = (if truthy userId then clearUserCache userId (localStorage c1)
                 else localStorage c1);
          st3 = clearAllCache st2
      in c1\<lparr>localStorage := isAvailable_probe st3\<rparr>)"


section \<open>The server: POST /api/auth/login\<close>

text \<open>An HTTP response: status code and JSON body.\<close>

type_synonym response = "nat \<times> jsval"

definition json_error :: "nat \<Rightarrow> string \<Rightarrow> response" where
  "json_error status msg = (status, Obj [(''success'', Bool False), (''error'', Str msg)])"

text \<open>The columns of the table \<^verbatim>\<open>users\<close> that the route selects; the table is the list
  of its rows.\<close>

record user_row =
  u_id :: int
  username :: string
  password_hash :: string

text \<open>\<^verbatim>\<open>queryOne\<close>: the first row of the result, \<^verbatim>\<open>null\<close> when there is none.\<close>

definition queryOne :: "('a \<Rightarrow> bool) \<Rightarrow> 'a list \<Rightarrow> 'a option" where
  "queryOne P rows = find P rows"

text \<open>
  \<^verbatim>\<open>verifyPassword\<close> hands its arguments to \<^verbatim>\<open>bcrypt.compare\<close>, which rejects
  (\<^verbatim>\<open>Illegal arguments\<close>) unless both are strings; the hash comes from a text column.
  What the library answers on a string password is the parameter \<open>bcrypt_compare\<close>;
  \<open>None\<close> is the exception.
\<close>

definition verifyPassword :: "(string \<Rightarrow> string \<Rightarrow> bool) \<Rightarrow> jsval \<Rightarrow> string \<Rightarrow> bool option" where
  "verifyPassword bcrypt_compare password hash =
     (case password of Str s \<Rightarrow> Some (bcrypt_compare s hash) | _ \<Rightarrow> None)"

text \<open>
  The handler of \<^verbatim>\<open>POST /login\<close>. \<^verbatim>\<open>generateToken\<close> is a parameter. An exception
  inside the try block (destructuring a body that is \<^verbatim>\<open>null\<close> or \<^verbatim>\<open>undefined\<close>,
  or the password check) is answered with status 500.
\<close>

definition login_route ::
  "(string \<Rightarrow> string \<Rightarrow> bool) \<Rightarrow> (int \<Rightarrow> string \<Rightarrow> string) \<Rightarrow> user_row list \<Rightarrow> jsval \<Rightarrow> response" where
  "login_route bcrypt_compare generateToken users body =
     (case get_prop body ''username'' of
        Inl e \<Rightarrow> json_error 500 msg_server_error
      | Inr uname \<Rightarrow>
          (let password = opt_prop body ''password''
           in if \<not> truthy uname \<or> \<not> truthy password then json_error 401 msg_bad_credentials
              else
                (let trimmedUsername = (case uname of Str s \<Rightarrow> trim s | _ \<Rightarrow> [])
                 in case queryOne (\<lambda>u. username u = trimmedUsername) users of
                      None \<Rightarrow> json_error 401 msg_bad_credentials
                    | Some user \<Rightarrow>
                        (case verifyPassword bcrypt_compare password (password_hash user) of
                           None \<Rightarrow> json_error 500 msg_server_error
                         | Some isPasswordValid \<Rightarrow>
                             if \<not> isPasswordValid then json_error 401 msg_bad_credentials
                             else (200, Obj [(''success'', Bool True),
                                             (''token'', Str (generateToken (u_id user) (username user))),
                                             (''user'', Obj [(''id'', Num (u_id user)),
                                                             (''username'', Str (username user))])])))))"

section \<open>The server: POST /api/data\<close>

text \<open>\<^verbatim>\<open>typeof v === 'string'\<close> and non-empty: \<^verbatim>\<open>!v || typeof v !== 'string'\<close> is false.\<close>

fun nonempty_string :: "jsval \<Rightarrow> string option" where
  "nonempty_string (Str s) = (if s = [] then None else Some s)"
| "nonempty_string v = None"

text \<open>
  The handler of \<^verbatim>\<open>POST /\<close> of the data routes, which runs behind
  \<^verbatim>\<open>authMiddleware\<close>. It destructures \<^verbatim>\<open>req.body\<close> and checks the two required
  fields, answering 400 when one is missing. What follows, from the first database statement
  to the response (with the catch block around it), is the parameter \<open>upsert\<close>, run with
  the checked \<^verbatim>\<open>monthId\<close> and \<^verbatim>\<open>monthName\<close>, the body and the database \<open>db\<close>.
\<close>

definition data_post ::
  "(string \<Rightarrow> string \<Rightarrow> jsval \<Rightarrow> 'db \<Rightarrow> response \<times> 'db) \<Rightarrow> jsval \<Rightarrow> 'db \<Rightarrow> response \<times> 'db" where
  "data_post upsert body db =
     (case get_prop body ''monthId'' of
        Inl e \<Rightarrow> (json_error 500 msg_server_error, db)
      | Inr monthIdV \<Rightarrow>
     (case nonempty_string monthIdV of
        None \<Rightarrow> (json_error 400 msg_month_id_empty, db)
      | Some monthId \<Rightarrow>
     (case nonempty_string (opt_prop body ''monthName'') of
        None \<Rightarrow> (json_error 400 msg_month_name_empty, db)
      | Some monthName \<Rightarrow> upsert monthId monthName body db)))"

text \<open>
  The remote service as \<^verbatim>\<open>uploadData\<close> meets it when the token of the request is valid
  and the body is within the size limit of the JSON parser: \<^verbatim>\<open>POST /api/data\<close> is
  answered by its handler, and \<^verbatim>\<open>response.json()\<close> gives the body of the response.
  The requests to the other routes are left to the parameter \<open>others\<close>.
\<close>

definition remote ::
  "(string \<Rightarrow> string \<Rightarrow> jsval \<Rightarrow> 'db \<Rightarrow> response \<times> 'db) \<Rightarrow> (request \<Rightarrow> 'db \<Rightarrow> fetch_result \<times> 'db)
     \<Rightarrow> request \<Rightarrow> 'db \<Rightarrow> fetch_result \<times> 'db" where
  "remote upsert others req db =
     (case req of
        POST_data hdr body \<Rightarrow>
          (case data_post upsert body db of (resp, db') \<Rightarrow> (Responded (snd resp), db'))
      | _ \<Rightarrow> others req db)"

section \<open>The server: DELETE /api/data/:id\<close>

text \<open>The body of the response with status 404 by which the handler reports that the user
  has no row with the given id.\<close>

definition not_found_body :: jsval where
  "not_found_body = Obj [(''success'', Bool False), (''error'', Str msg_not_found)]"

section \<open>Well-formed JSON and example states\<close>

text \<open>The values \<^verbatim>\<open>JSON.parse\<close> can return: no \<^verbatim>\<open>undefined\<close> and no date inside.\<close>

fun is_json :: "jsval \<Rightarrow> bool" where
  "is_json Undefined = False"
| "is_json (Date d) = False"
| "is_json (Arr xs) = list_all is_json xs"
| "is_json (Obj kvs) = list_all (\<lambda>kv. is_json (snd kv)) kvs"
| "is_json v = True"

text \<open>A record as the remote service lists it: a JSON object.\<close>

fun is_record :: "jsval \<Rightarrow> bool" where
  "is_record (Obj kvs) = list_all (\<lambda>kv. is_json (snd kv)) kvs"
| "is_record v = False"

text \<open>
  A remote service that answers the requests it receives, whatever they are, with the
  outcomes of a given list in turn, and throws when the list is used up.
\<close>

definition scripted :: "request \<Rightarrow> fetch_result list \<Rightarrow> fetch_result \<times> fetch_result list" where
  "scripted req w = (case w of [] \<Rightarrow> (Threw, []) | x # xs \<Rightarrow> (x, xs))"

text \<open>Concrete states for the examples: user \<open>alice\<close> (id 1), logged in and online, with
  an empty store; two records.\<close>

definition alice :: jsval where
  "alice = Obj [(''id'', Num 1), (''username'', Str ''alice'')]"

definition session :: client where
  "session = \<lparr>token = Str ''tok'', currentUser = alice, syncStatus = Idle, lastSyncTime = None,
              localStorage = [], navigator_onLine = Some True, clock = 7\<rparr>"

definition jan :: jsval where
  "jan = Obj [(''monthId'', Str ''m1''), (''monthName'', Str ''Jan'')]"

definition feb :: jsval where
  "feb = Obj [(''monthId'', Str ''m2''), (''monthName'', Str ''Feb'')]"

definition ok_body :: jsval where
  "ok_body = Obj [(''success'', Bool True), (''id'', Num 1)]"

definition server_error_body :: jsval where
  "server_error_body = Obj [(''success'', Bool False), (''error'', Str msg_server_error)]"

definition alice_without_id :: jsval where
  "alice_without_id = Obj [(''username'', Str ''alice'')]"

definition alice_id_0 :: jsval where
  "alice_id_0 = Obj [(''id'', Num 0), (''username'', Str ''alice'')]"

definition jan_listing :: jsval where
  "jan_listing = Obj [(''success'', Bool True), (''data'', Arr [jan])]"

text \<open>What the callback of \<^verbatim>\<open>getCachedData\<close> makes of a record: the record with its
  \<^verbatim>\<open>importedAt\<close> replaced by \<^verbatim>\<open>new Date(importedAt)\<close>.\<close>

definition revived :: "(jsval \<Rightarrow> string option) \<Rightarrow> jsval \<Rightarrow> jsval" where
  "revived newDate d = spread_with d ''importedAt'' (Date (newDate (opt_prop d ''importedAt'')))"

text \<open>A table \<^verbatim>\<open>users\<close> with the one registered user \<open>alice\<close>, and the two requests
  to \<^verbatim>\<open>POST /login\<close> whose password is the number 123456: one for the name \<open>bob\<close>,
  which is not registered, one for \<open>alice\<close>.\<close>

definition alice_users :: "user_row list" where
  "alice_users = [\<lparr>u_id = 1, username = ''alice'', password_hash = ''hash-of-secret1''\<rparr>]"

definition bob_123456 :: jsval where
  "bob_123456 = Obj [(''username'', Str ''bob''), (''password'', Num 123456)]"

definition alice_123456 :: jsval where
  "alice_123456 = Obj [(''username'', Str ''alice''), (''password'', Num 123456)]"

text \<open>Stand-ins for the two libraries in the examples: a password check that accepts
  exactly the password of \<open>alice\<close>, and a token generator with a fixed token.\<close>

definition matches_secret1 :: "string \<Rightarrow> string \<Rightarrow> bool" where
  "matches_secret1 p h = (p = ''secret1'' \<and> h = ''hash-of-secret1'')"

definition jwt :: "int \<Rightarrow> string \<Rightarrow> string" where
  "jwt i u = ''jwt''"

section \<open>Notions for the replay\<close>

text \<open>A remote service that answers every request with a body (neither \<^verbatim>\<open>null\<close> nor
  \<^verbatim>\<open>undefined\<close>), and one that answers every request with the server-error body.\<close>

definition always_answers :: "(request \<Rightarrow> 'w \<Rightarrow> fetch_result \<times> 'w) \<Rightarrow> bool" where
  "always_answers fetch =
     (\<forall>req w. \<exists>d w'. fetch req w = (Responded d, w') \<and> d \<noteq> Null \<and> d \<noteq> Undefined)"

definition refusing :: "request \<Rightarrow> unit \<Rightarrow> fetch_result \<times> unit" where
  "refusing req w = (Responded server_error_body, ())"

text \<open>A stand-in for the platform in the examples: a \<^verbatim>\<open>Date\<close> constructor that
  yields the invalid date for every argument.\<close>

definition invalid_date :: "jsval \<Rightarrow> string option" where
  "invalid_date v = None"

text \<open>The body by which the route confirms a delete.\<close>

definition deleted_body :: jsval where
  "deleted_body = Obj [(''success'', Bool True)]"

section \<open>Facts about the store and its keys\<close>

lemma invalid_date_simp [simp]: "invalid_date v = None"
  by (simp add: invalid_date_def)

lemma getItem_setItem:
  "getItem (setItem k v st) k' = (if k' = k then Some v else getItem st k')"
  by (simp add: getItem_def setItem_def update_conv')

lemma getItem_removeItem:
  "getItem (removeItem k st) k' = (if k' = k then None else getItem st k')"
  by (simp add: getItem_def removeItem_def delete_conv')

lemma startsWith_cache_key: "startsWith (cache_key userId) CACHE_KEY_PREFIX"
  by (simp add: startsWith_def cache_key_def)

lemma cache_key_neq_pending: "cache_key userId \<noteq> PENDING_OPS_KEY"
  by (simp add: cache_key_def CACHE_KEY_PREFIX_def PENDING_OPS_KEY_def)

lemma cache_key_neq_test: "cache_key userId \<noteq> STORAGE_TEST_KEY"
  by (simp add: cache_key_def CACHE_KEY_PREFIX_def STORAGE_TEST_KEY_def)

lemma cache_key_neq_auth:
  "cache_key userId \<noteq> AUTH_TOKEN_KEY" "cache_key userId \<noteq> AUTH_USER_KEY"
  by (simp_all add: cache_key_def CACHE_KEY_PREFIX_def AUTH_TOKEN_KEY_def AUTH_USER_KEY_def)

lemma pending_not_cache: "\<not> startsWith PENDING_OPS_KEY CACHE_KEY_PREFIX"
  by (simp add: startsWith_def CACHE_KEY_PREFIX_def PENDING_OPS_KEY_def)

text \<open>What \<^verbatim>\<open>getCachedData\<close> returns depends on the one entry of the identity only.\<close>

lemma getCachedData_cong:
  "getItem st (cache_key userId) = getItem st' (cache_key userId)
   \<Longrightarrow> getCachedData newDate userId st = getCachedData newDate userId st'"
  by (simp add: getCachedData_def getCachedData_try_def)

lemma getCachedData_returns: "\<exists>xs. getCachedData newDate userId st = Inr xs"
  by (simp add: getCachedData_def split: sum.split)

lemma cacheData_returns: "\<exists>st'. cacheData userId data st = Inr st'"
  by (simp add: cacheData_def split: sum.split)

text \<open>Serialising a value that is JSON already changes nothing.\<close>

lemma to_json_id: "is_json v \<Longrightarrow> to_json v = v"
proof (induction v)
  case (Arr xs)
  have "x \<in> set xs \<Longrightarrow> (if x = Undefined then Null else to_json x) = x" for x
    using Arr by (cases "x = Undefined") (auto simp: list_all_iff)
  then show ?case by (simp add: map_idI)
next
  case (Obj kvs)
  have "filter (\<lambda>(k, v). v \<noteq> Undefined) kvs = kvs"
    using Obj.prems by (auto simp: list_all_iff intro!: filter_True)
  moreover have "map (\<lambda>(k, v). (k, to_json v)) kvs = kvs"
    using Obj by (auto simp: list_all_iff intro!: map_idI)
  ultimately show ?case by simp
qed auto

text \<open>Appending to a well-formed log, and its independence from every cache entry.\<close>

lemma getPendingOperations_add:
  assumes "getPendingOperations st = Arr ops" and "list_all is_json ops"
  shows "getPendingOperations (addPendingOperation operation st) =
           Arr (ops @ [if operation = Undefined then Null else to_json operation])"
proof -
  have "x \<in> set ops \<Longrightarrow> (if x = Undefined then Null else to_json x) = x" for x
    using assms(2) by (cases "x = Undefined") (auto simp: list_all_iff to_json_id)
  then have "map (\<lambda>x. if x = Undefined then Null else to_json x) ops = ops"
    by (simp add: map_idI)
  with assms(1) show ?thesis
    by (simp add: addPendingOperation_def getPendingOperations_def getItem_setItem
        JSON_stringify_def empty_text_def)
qed

lemma getCachedData_add:
  "getCachedData newDate userId (addPendingOperation operation st) =
     getCachedData newDate userId st"
proof (rule getCachedData_cong)
  show "getItem (addPendingOperation operation st) (cache_key userId) =
          getItem st (cache_key userId)"
    by (simp add: addPendingOperation_def getItem_setItem cache_key_neq_pending split: sum.split)
qed

lemma getAuthHeader_setSyncStatus [simp]: "getAuthHeader (setSyncStatus s c) = getAuthHeader c"
  by (simp add: getAuthHeader_def setSyncStatus_def)

text \<open>The example session is logged in and online, whatever its store holds.\<close>

lemma isLoggedIn_session [simp]:
  "isLoggedIn (session\<lparr>navigator_onLine := b, localStorage := st\<rparr>)"
  "isLoggedIn (session\<lparr>localStorage := st\<rparr>)"
  "isLoggedIn (session\<lparr>navigator_onLine := b\<rparr>)"
  "isLoggedIn session"
  by (simp_all add: isLoggedIn_def session_def alice_def)

lemma isOnline_session [simp]:
  "isOnline (session\<lparr>localStorage := st\<rparr>)"
  "isOnline session"
  "\<not> isOnline (session\<lparr>navigator_onLine := Some False, localStorage := st\<rparr>)"
  "\<not> isOnline (session\<lparr>navigator_onLine := Some False\<rparr>)"
  by (simp_all add: isOnline_def session_def)

lemma currentUserId_session [simp]:
  "currentUserId (session\<lparr>navigator_onLine := b, localStorage := st\<rparr>) = Num 1"
  "currentUserId (session\<lparr>localStorage := st\<rparr>) = Num 1"
  "currentUserId session = Num 1"
  by (simp_all add: currentUserId_def opt_prop_def session_def alice_def)

text \<open>The index loop of \<^verbatim>\<open>clearAllCache\<close> collects the keys with the cache prefix.\<close>

lemma foldl_index:
  "foldl (\<lambda>acc i. g acc (xs ! i)) a [0..<length xs] = foldl g a xs"
proof -
  have "foldl g a (map ((!) xs) [0..<length xs]) =
          foldl (\<lambda>acc i. g acc (xs ! i)) a [0..<length xs]"
    by (simp add: foldl_map)
  then show ?thesis by (simp add: map_nth)
qed

lemma foldl_collect:
  "foldl (\<lambda>acc kv. if Q (fst kv) then acc @ [fst kv] else acc) a st = a @ filter Q (map fst st)"
  by (induction st arbitrary: a) auto

lemma keysToRemove_eq:
  "keysToRemove st = filter (\<lambda>k. k \<noteq> [] \<and> startsWith k CACHE_KEY_PREFIX) (map fst st)"
  unfolding keysToRemove_def Let_def
  using foldl_index [of "\<lambda>acc kv. if fst kv \<noteq> [] \<and> startsWith (fst kv) CACHE_KEY_PREFIX
                                 then acc @ [fst kv] else acc" st "[]"]
    foldl_collect [of "\<lambda>k. k \<noteq> [] \<and> startsWith k CACHE_KEY_PREFIX" "[]" st]
  by simp

lemma getItem_remove_all:
  "getItem (foldl (\<lambda>s key. removeItem key s) st ks) k =
     (if k \<in> set ks then None else getItem st k)"
  by (induction ks arbitrary: st) (auto simp: getItem_removeItem)

lemma startsWith_nonempty: "startsWith k CACHE_KEY_PREFIX \<Longrightarrow> k \<noteq> []"
  by (auto simp: startsWith_def CACHE_KEY_PREFIX_def)

lemma getItem_clearAllCache:
  "getItem (clearAllCache st) k =
     (if k = PENDING_OPS_KEY \<or> startsWith k CACHE_KEY_PREFIX then None else getItem st k)"
proof -
  have "getItem st k = None" if "k \<notin> fst ` set st"
    using that by (simp add: getItem_def map_of_eq_None_iff)
  then show ?thesis
    using startsWith_nonempty [of k]
    by (auto simp: clearAllCache_def clearPendingOperations_def getItem_removeItem
        getItem_remove_all keysToRemove_eq)
qed

lemma auth_keys_not_cache:
  "\<not> startsWith AUTH_TOKEN_KEY CACHE_KEY_PREFIX" "\<not> startsWith AUTH_USER_KEY CACHE_KEY_PREFIX"
  "AUTH_TOKEN_KEY \<noteq> PENDING_OPS_KEY" "AUTH_USER_KEY \<noteq> PENDING_OPS_KEY"
  "AUTH_TOKEN_KEY \<noteq> STORAGE_TEST_KEY" "AUTH_USER_KEY \<noteq> STORAGE_TEST_KEY"
  "PENDING_OPS_KEY \<noteq> STORAGE_TEST_KEY"
  by (simp_all add: startsWith_def CACHE_KEY_PREFIX_def AUTH_TOKEN_KEY_def AUTH_USER_KEY_def
      PENDING_OPS_KEY_def STORAGE_TEST_KEY_def)

lemma getItem_probe:
  "getItem (isAvailable_probe st) k = (if k = STORAGE_TEST_KEY then None else getItem st k)"
  by (simp add: isAvailable_probe_def getItem_removeItem getItem_setItem)

lemma getCachedData_missing:
  "getItem st (cache_key userId) = None \<Longrightarrow> getCachedData newDate userId st = Inr []"
  by (simp add: getCachedData_def getCachedData_try_def)

section \<open>The LocalCache interface never raises\<close>

text \<open>
  Claim C10. \<^verbatim>\<open>cacheData\<close> and \<^verbatim>\<open>getCachedData\<close> return normally on every input
  (the result is never an exception). With an absent identity id (\<^verbatim>\<open>undefined\<close>,
  \<^verbatim>\<open>null\<close>, and every other falsy id) \<^verbatim>\<open>cacheData\<close> leaves the store as it is and
  \<^verbatim>\<open>getCachedData\<close> returns the empty sequence; \<^verbatim>\<open>getCachedData\<close> also returns the
  empty sequence when the identity has no entry in the store and when the entry is text that
  does not parse.
\<close>

theorem local_cache_total:
  "(\<exists>st'. cacheData userId data st = Inr st') \<and>
   (\<exists>xs. getCachedData newDate userId st = Inr xs) \<and>
   (\<not> truthy userId \<longrightarrow>
      cacheData userId data st = Inr st \<and> getCachedData newDate userId st = Inr []) \<and>
   (getItem st (cache_key userId) = None \<longrightarrow> getCachedData newDate userId st = Inr []) \<and>
   (getItem st (cache_key userId) = Some (Plain t) \<longrightarrow>
      getCachedData newDate userId st = Inr [])"
  by (auto simp: cacheData_def getCachedData_def getCachedData_try_def empty_text_def
           split: sum.split)

theorem local_cache_total_witness:
  "cacheData Undefined (Arr [Obj [(''monthId'', Str ''m1'')]]) [] = Inr [] \<and>
   getCachedData invalid_date Null [(cache_key Null, Json (Arr [Obj []]))] = Inr [] \<and>
   getCachedData invalid_date (Num 1) [] = Inr [] \<and>
   getCachedData invalid_date (Num 1) [(cache_key (Num 1), Plain ''{oops'')] = Inr []"
proof -
  have absent: "\<not> truthy Undefined" "\<not> truthy Null"
    by simp_all
  have missing: "getItem [] (cache_key (Num 1)) = None"
    by (simp add: getItem_def)
  have broken: "getItem [(cache_key (Num 1), Plain ''{oops'')] (cache_key (Num 1)) = Some (Plain ''{oops'')"
    by (simp add: getItem_def)
  show ?thesis
    using local_cache_total [of Undefined "Arr [Obj [(''monthId'', Str ''m1'')]]" "[]" invalid_date]
      local_cache_total [of Null Undefined "[(cache_key Null, Json (Arr [Obj []]))]" invalid_date]
      local_cache_total [of "Num 1" Undefined "[]" invalid_date]
      local_cache_total [of "Num 1" Undefined "[(cache_key (Num 1), Plain ''{oops'')]" invalid_date "''{oops''"]
      absent missing broken
    by blast
qed

section \<open>Offline behaviour\<close>

text \<open>
  Claim C5. In an authenticated session with the network unreachable,
  \<^verbatim>\<open>downloadAllData\<close> resolves (it does not reject), sets the sync status to
  \<^verbatim>\<open>offline\<close>, changes nothing else and sends no request; with \<open>cached\<close> what
  \<^verbatim>\<open>getCachedData\<close> returns for the current identity, it returns success with exactly
  \<open>cached\<close> when that is non-empty, and fails with the message "network offline, no locally
  cached data" (the spec's OfflineNoCache) when it is empty.
\<close>

theorem download_offline:
  assumes "isLoggedIn c" and "\<not> isOnline c"
  shows "\<exists>cached. getCachedData newDate (currentUserId c) (localStorage c) = Inr cached \<and>
           downloadAllData newDate fetch c w =
             Inr (if cached \<noteq> []
                  then \<lparr>success = True, res_id = Undefined, res_data = Arr cached,
                        error = Undefined\<rparr>
                  else failure (Str msg_offline_no_cache),
                  c\<lparr>syncStatus := Offline\<rparr>, w)"
proof -
  obtain cached where "getCachedData newDate (currentUserId c) (localStorage c) = Inr cached"
    using getCachedData_returns by blast
  with assms show ?thesis
    by (simp add: downloadAllData_def setSyncStatus_def currentUserId_def cached_or_def)
qed

theorem download_offline_witness:
  "downloadAllData invalid_date scripted
     (session\<lparr>navigator_onLine := Some False,
              localStorage := [(cache_key (Num 1), Json (Arr [jan]))]\<rparr>) [] =
     Inr (\<lparr>success = True, res_id = Undefined,
           res_data = Arr [Obj [(''monthId'', Str ''m1''), (''monthName'', Str ''Jan''),
                                (''importedAt'', Date None)]],
           error = Undefined\<rparr>,
          session\<lparr>navigator_onLine := Some False,
                   localStorage := [(cache_key (Num 1), Json (Arr [jan]))],
                   syncStatus := Offline\<rparr>, []) \<and>
   downloadAllData invalid_date scripted
     (session\<lparr>navigator_onLine := Some False, localStorage := []\<rparr>) [] =
     Inr (failure (Str msg_offline_no_cache),
          session\<lparr>navigator_onLine := Some False, localStorage := [], syncStatus := Offline\<rparr>,
          [])"
proof -
  let ?c1 = "session\<lparr>navigator_onLine := Some False,
                      localStorage := [(cache_key (Num 1), Json (Arr [jan]))]\<rparr>"
  let ?c2 = "session\<lparr>navigator_onLine := Some False, localStorage := []\<rparr>"
  have cached1: "getCachedData invalid_date (Num 1) (localStorage ?c1) =
      Inr [Obj [(''monthId'', Str ''m1''), (''monthName'', Str ''Jan''),
                (''importedAt'', Date None)]]"
    by (simp add: getCachedData_def getCachedData_try_def getItem_def empty_text_def revive_def
        spread_with_def jan_def)
  have cached2: "getCachedData invalid_date (Num 1) (localStorage ?c2) = Inr []"
    by (simp add: getCachedData_def getCachedData_try_def getItem_def)
  have pre: "isLoggedIn ?c1" "\<not> isOnline ?c1" "isLoggedIn ?c2" "\<not> isOnline ?c2"
    by simp_all
  show ?thesis
    using download_offline [OF pre(1,2), of invalid_date scripted "[]"]
      download_offline [OF pre(3,4), of invalid_date scripted "[]"]
      cached1 cached2
    by auto
qed

text \<open>
  Claim C3, as the code has it. In an authenticated session with the network unreachable,
  \<^verbatim>\<open>uploadData\<close> sends nothing, sets the sync status to \<^verbatim>\<open>offline\<close> and resolves to
  \<^verbatim>\<open>{success: false, error: "network offline, data has been saved locally"}\<close>. The only
  write to the store is \<^verbatim>\<open>addPendingOperation\<close>: a well-formed log gets the upload
  operation (type, record, time stamp) as its new last entry, and what \<^verbatim>\<open>getCachedData\<close>
  returns is the same as before for every identity: the local cache is not updated.
\<close>

theorem upload_offline:
  assumes "isLoggedIn c" and "\<not> isOnline c"
  shows "\<exists>c'. uploadData fetch monthData c w = (failure (Str msg_upload_offline), c', w) \<and>
           c' = c\<lparr>syncStatus := Offline,
                  localStorage := addPendingOperation (upload_op monthData (clock c))
                                    (localStorage c)\<rparr> \<and>
           (\<forall>userId. getCachedData newDate userId (localStorage c') =
                      getCachedData newDate userId (localStorage c)) \<and>
           (\<forall>ops. getPendingOperations (localStorage c) = Arr ops \<and> list_all is_json ops \<longrightarrow>
                   getPendingOperations (localStorage c') =
                     Arr (ops @ [to_json (upload_op monthData (clock c))]))"
  using assms
  by (simp add: uploadData_def pend_def setSyncStatus_def getCachedData_add
      getPendingOperations_add upload_op_def)

theorem upload_offline_witness:
  "uploadData scripted jan
     (session\<lparr>navigator_onLine := Some False,
              localStorage := [(PENDING_OPS_KEY, Json (Arr [upload_op feb 1]))]\<rparr>) [] =
     (failure (Str msg_upload_offline),
      session\<lparr>navigator_onLine := Some False,
               localStorage := [(PENDING_OPS_KEY, Json (Arr [upload_op feb 1, upload_op jan 7]))],
               syncStatus := Offline\<rparr>, [])"
proof -
  let ?st = "[(PENDING_OPS_KEY, Json (Arr [upload_op feb 1]))]"
  let ?c = "session\<lparr>navigator_onLine := Some False, localStorage := ?st\<rparr>"
  have log: "getPendingOperations (localStorage ?c) = Arr [upload_op feb 1] \<and>
             list_all is_json [upload_op feb 1]"
    by (simp add: getPendingOperations_def getItem_def empty_text_def upload_op_def feb_def)
  have js: "to_json (upload_op jan 7) = upload_op jan 7"
    "to_json (upload_op feb 1) = upload_op feb 1"
    by (simp_all add: upload_op_def jan_def feb_def)
  have nu: "upload_op x n \<noteq> Undefined" for x n
    by (simp add: upload_op_def)
  have add: "addPendingOperation (upload_op jan (clock ?c)) (localStorage ?c) =
               [(PENDING_OPS_KEY, Json (Arr [upload_op feb 1, upload_op jan 7]))]"
    by (simp add: addPendingOperation_def getPendingOperations_def getItem_def empty_text_def
        setItem_def JSON_stringify_def js nu session_def)
  have pre: "isLoggedIn ?c" "\<not> isOnline ?c"
    by simp_all
  show ?thesis
    using upload_offline [OF pre, of scripted jan "[]" invalid_date] log add
    by auto
qed

text \<open>
  The claim as stated fails: after an offline upload of the record \<open>jan\<close> in a session whose
  cache is empty, the result carries \<^verbatim>\<open>success: false\<close> and the cache of the identity is
  still empty.
\<close>

theorem upload_offline_counterexample:
  "\<not> success (fst (uploadData scripted jan (session\<lparr>navigator_onLine := Some False\<rparr>) [])) \<and>
   getCachedData invalid_date (Num 1)
     (localStorage (fst (snd (uploadData scripted jan
        (session\<lparr>navigator_onLine := Some False\<rparr>) []))))
     = Inr []"
  by (simp add: uploadData_def failure_def pend_def setSyncStatus_def getCachedData_add)
    (simp add: getCachedData_def getCachedData_try_def getItem_def session_def)

section \<open>A delete that the remote service does not find\<close>

text \<open>What \<^verbatim>\<open>deleteData\<close> does with a response whose \<^verbatim>\<open>success\<close> is falsy.\<close>

lemma deleteData_rejected:
  assumes "isLoggedIn c" and "isOnline c"
    and "fetch (DELETE_data (getAuthHeader c) (js_to_string monthId)) w = (Responded data, w')"
    and "get_prop data ''success'' = Inr s" and "\<not> truthy s"
  shows "deleteData fetch monthId c w =
           (failure (js_or (opt_prop data ''error'') (Str msg_delete_failed)),
            c\<lparr>syncStatus := Error\<rparr>, w')"
  using assms by (simp add: deleteData_def Let_def) (simp add: setSyncStatus_def)

text \<open>
  Claim C4, as the code has it. In an authenticated, online session, when the remote service
  answers the delete with the body of the route's 404 response (\<^verbatim>\<open>success: false\<close> and
  the message "data does not exist or no permission to delete"), \<^verbatim>\<open>deleteData\<close>
  resolves to a failure that carries this message and sets the sync status to
  \<^verbatim>\<open>error\<close>. Nothing else of the client changes: the store is the same, so no pending
  operation is appended.
\<close>

theorem delete_not_found:
  assumes "isLoggedIn c" and "isOnline c"
    and "fetch (DELETE_data (getAuthHeader c) (js_to_string monthId)) w =
           (Responded not_found_body, w')"
  shows "deleteData fetch monthId c w =
           (failure (Str msg_not_found), c\<lparr>syncStatus := Error\<rparr>, w')"
proof -
  have "js_or (opt_prop not_found_body ''error'') (Str msg_delete_failed) = Str msg_not_found"
    by (simp add: not_found_body_def js_or_def opt_prop_def msg_not_found_def)
  moreover have "deleteData fetch monthId c w =
      (failure (js_or (opt_prop not_found_body ''error'') (Str msg_delete_failed)),
       c\<lparr>syncStatus := Error\<rparr>, w')"
    using assms by (rule deleteData_rejected [where s = "Bool False"])
      (simp_all add: not_found_body_def)
  ultimately show ?thesis by simp
qed

theorem delete_not_found_witness:
  "deleteData scripted (Str ''5'') session [Responded not_found_body] =
     (failure (Str msg_not_found), session\<lparr>syncStatus := Error\<rparr>, [])"
proof -
  have "isLoggedIn session" "isOnline session"
    by simp_all
  moreover have "scripted (DELETE_data (getAuthHeader session) (js_to_string (Str ''5'')))
      [Responded not_found_body] = (Responded not_found_body, [])"
    by (simp add: scripted_def)
  ultimately show ?thesis
    by (rule delete_not_found)
qed

text \<open>
  The claim as stated fails: the delete of id 5 is answered with the 404 body; the sync
  status becomes \<^verbatim>\<open>error\<close> and the result is not a success.
\<close>

theorem delete_not_found_counterexample:
  "syncStatus (fst (snd (deleteData scripted (Str ''5'') session
      [Responded not_found_body]))) = Error \<and>
   \<not> success (fst (deleteData scripted (Str ''5'') session [Responded not_found_body]))"
proof -
  have "isLoggedIn session" "isOnline session"
    by simp_all
  moreover have "scripted (DELETE_data (getAuthHeader session) (js_to_string (Str ''5'')))
      [Responded not_found_body] = (Responded not_found_body, [])"
    by (simp add: scripted_def)
  ultimately have "deleteData scripted (Str ''5'') session [Responded not_found_body] =
      (failure (js_or (opt_prop not_found_body ''error'') (Str msg_delete_failed)),
       session\<lparr>syncStatus := Error\<rparr>, [])"
    by (rule deleteData_rejected [where s = "Bool False"]) (simp_all add: not_found_body_def)
  then show ?thesis
    by (simp add: failure_def)
qed

section \<open>Logout\<close>

text \<open>
  Claim C9, as the code has it. After \<^verbatim>\<open>handleLogout\<close>, from every prior state: the
  token and the current user are \<^verbatim>\<open>null\<close> and removed from the store (the session is
  not logged in), \<^verbatim>\<open>getCachedData\<close> returns the empty sequence for the previous identity
  (and for every other id), and the pending-operation log is empty. The sync status of
  \<^verbatim>\<open>CloudSyncManager\<close> is what it was before: \<^verbatim>\<open>handleLogout\<close> passes
  \<^verbatim>\<open>'idle'\<close> to the indicator of the page only.
\<close>

theorem logout_erases:
  "token (handleLogout c) = Null \<and>
   currentUser (handleLogout c) = Null \<and>
   \<not> isLoggedIn (handleLogout c) \<and>
   getItem (localStorage (handleLogout c)) AUTH_TOKEN_KEY = None \<and>
   getItem (localStorage (handleLogout c)) AUTH_USER_KEY = None \<and>
   getCachedData newDate userId (localStorage (handleLogout c)) = Inr [] \<and>
   getPendingOperations (localStorage (handleLogout c)) = Arr [] \<and>
   syncStatus (handleLogout c) = syncStatus c"
proof -
  have cache: "getItem (localStorage (handleLogout c)) (cache_key userId) = None"
    by (simp add: handleLogout_def Let_def getItem_probe getItem_clearAllCache
        startsWith_cache_key cache_key_neq_test)
  have pend: "getItem (localStorage (handleLogout c)) PENDING_OPS_KEY = None"
    by (simp add: handleLogout_def Let_def getItem_probe getItem_clearAllCache)
  have auth: "getItem (localStorage (handleLogout c)) AUTH_TOKEN_KEY = None"
    "getItem (localStorage (handleLogout c)) AUTH_USER_KEY = None"
    by (simp_all add: handleLogout_def Let_def getItem_probe getItem_clearAllCache
        auth_keys_not_cache logout_def clearSession_def clearUserCache_def getItem_removeItem)
  show ?thesis
    using cache pend auth
    by (simp add: getCachedData_missing getPendingOperations_def)
      (simp add: handleLogout_def Let_def logout_def isLoggedIn_def)
qed

theorem logout_erases_witness:
  "getCachedData invalid_date (Num 1)
     [(AUTH_TOKEN_KEY, Plain ''tok''), (cache_key (Num 1), Json (Arr [jan])),
      (PENDING_OPS_KEY, Json (Arr [upload_op feb 1]))] =
     Inr [Obj [(''monthId'', Str ''m1''), (''monthName'', Str ''Jan''),
               (''importedAt'', Date None)]] \<and>
   getPendingOperations
     [(AUTH_TOKEN_KEY, Plain ''tok''), (cache_key (Num 1), Json (Arr [jan])),
      (PENDING_OPS_KEY, Json (Arr [upload_op feb 1]))] = Arr [upload_op feb 1] \<and>
   getCachedData invalid_date (Num 1)
     (localStorage (handleLogout (session\<lparr>syncStatus := Error, localStorage :=
        [(AUTH_TOKEN_KEY, Plain ''tok''), (cache_key (Num 1), Json (Arr [jan])),
         (PENDING_OPS_KEY, Json (Arr [upload_op feb 1]))]\<rparr>))) = Inr [] \<and>
   getPendingOperations
     (localStorage (handleLogout (session\<lparr>syncStatus := Error, localStorage :=
        [(AUTH_TOKEN_KEY, Plain ''tok''), (cache_key (Num 1), Json (Arr [jan])),
         (PENDING_OPS_KEY, Json (Arr [upload_op feb 1]))]\<rparr>))) = Arr [] \<and>
   token (handleLogout (session\<lparr>syncStatus := Error, localStorage :=
        [(AUTH_TOKEN_KEY, Plain ''tok''), (cache_key (Num 1), Json (Arr [jan])),
         (PENDING_OPS_KEY, Json (Arr [upload_op feb 1]))]\<rparr>)) = Null \<and>
   syncStatus (handleLogout (session\<lparr>syncStatus := Error, localStorage :=
        [(AUTH_TOKEN_KEY, Plain ''tok''), (cache_key (Num 1), Json (Arr [jan])),
         (PENDING_OPS_KEY, Json (Arr [upload_op feb 1]))]\<rparr>)) = Error"
proof -
  let ?st = "[(AUTH_TOKEN_KEY, Plain ''tok''), (cache_key (Num 1), Json (Arr [jan])),
              (PENDING_OPS_KEY, Json (Arr [upload_op feb 1]))]"
  have before: "getCachedData invalid_date (Num 1) ?st =
      Inr [Obj [(''monthId'', Str ''m1''), (''monthName'', Str ''Jan''),
                (''importedAt'', Date None)]]"
    by (simp add: getCachedData_def getCachedData_try_def getItem_def empty_text_def revive_def
        spread_with_def jan_def cache_key_neq_auth cache_key_neq_auth [symmetric])
  have log: "getPendingOperations ?st = Arr [upload_op feb 1]"
    by (simp add: getPendingOperations_def getItem_def empty_text_def cache_key_neq_pending
        cache_key_neq_pending [symmetric] auth_keys_not_cache auth_keys_not_cache(3,4) [symmetric])
  show ?thesis
    using logout_erases [of "session\<lparr>syncStatus := Error, localStorage := ?st\<rparr>" invalid_date "Num 1"]
      before log
    by simp
qed

text \<open>
  The claim as stated fails: a session whose sync status is \<^verbatim>\<open>error\<close> logs out, and the
  status is not \<^verbatim>\<open>idle\<close> afterwards.
\<close>

theorem logout_erases_counterexample:
  "syncStatus (handleLogout (session\<lparr>syncStatus := Error\<rparr>)) \<noteq> Idle"
  by (simp add: handleLogout_def Let_def logout_def)

section \<open>Cloud wins on download\<close>

lemma update_fresh: "map_of al k = None \<Longrightarrow> AList.update k v al = al @ [(k, v)]"
  by (induction al) (auto split: if_splits)

lemma iso_or_same_json: "is_json v \<Longrightarrow> iso_or_same v = Inr v"
  by (cases v) auto

text \<open>For a JSON object the callback of \<^verbatim>\<open>cacheData\<close> yields an object that serialises to
  the object itself: an absent \<^verbatim>\<open>importedAt\<close> is added as \<^verbatim>\<open>undefined\<close> and dropped
  again by \<^verbatim>\<open>JSON.stringify\<close>, a present one is kept in place.\<close>

lemma cache_entry_record:
  assumes "is_record d"
  shows "\<exists>d'. cache_entry d = Inr d' \<and> d' \<noteq> Undefined \<and> to_json d' = d"
proof -
  from assms obtain kvs where d: "d = Obj kvs" and js: "list_all (\<lambda>kv. is_json (snd kv)) kvs"
    by (cases d) auto
  have keep: "filter (\<lambda>(k, v). v \<noteq> Undefined) kvs = kvs"
    using js by (auto simp: list_all_iff intro!: filter_True)
  have same: "map (\<lambda>(k, v). (k, to_json v)) kvs = kvs"
    using js by (auto simp: list_all_iff to_json_id intro!: map_idI)
  show ?thesis
  proof (cases "map_of kvs ''importedAt''")
    case None
    then show ?thesis
      using keep same
      by (simp add: d cache_entry_def spread_with_def update_fresh)
  next
    case (Some v)
    then have "(''importedAt'', v) \<in> set kvs"
      by (rule map_of_SomeD)
    with js have "is_json v"
      by (auto simp: list_all_iff)
    with Some show ?thesis
      using keep same
      by (simp add: d cache_entry_def spread_with_def update_triv iso_or_same_json)
  qed
qed

lemma cache_entries_records:
  "list_all is_record xs \<Longrightarrow>
   \<exists>ys. map_exn cache_entry xs = Inr ys \<and>
        map (\<lambda>x. if x = Undefined then Null else to_json x) ys = xs"
proof (induction xs)
  case Nil
  then show ?case by simp
next
  case (Cons x xs)
  then obtain ys where "map_exn cache_entry xs = Inr ys"
    "map (\<lambda>x. if x = Undefined then Null else to_json x) ys = xs"
    by auto
  moreover from Cons.prems obtain d'
    where "cache_entry x = Inr d'" "d' \<noteq> Undefined" "to_json d' = x"
    using cache_entry_record [of x] by auto
  ultimately show ?case by simp
qed

lemma cacheData_records:
  assumes "truthy userId" and "list_all is_record xs"
  shows "cacheData userId (Arr xs) st = Inr (setItem (cache_key userId) (Json (Arr xs)) st)"
  using assms cache_entries_records [OF assms(2)]
  by (auto simp: cacheData_def cacheData_try_def JSON_stringify_def)

lemma map_exn_total:
  "(\<And>x. x \<in> set xs \<Longrightarrow> f x = Inr (g x)) \<Longrightarrow> map_exn f xs = Inr (map g xs)"
  by (induction xs) auto

lemma revive_record: "is_record d \<Longrightarrow> revive newDate d = Inr (revived newDate d)"
  by (cases d) (auto simp: revive_def revived_def opt_prop_def)

lemma getCachedData_records:
  assumes "truthy userId" and "list_all is_record xs"
    and "getItem st (cache_key userId) = Some (Json (Arr xs))"
  shows "getCachedData newDate userId st = Inr (map (revived newDate) xs)"
proof -
  have "map_exn (revive newDate) xs = Inr (map (revived newDate) xs)"
    using assms(2) by (intro map_exn_total revive_record) (simp add: list_all_iff)
  with assms(1,3) show ?thesis
    by (simp add: getCachedData_def getCachedData_try_def empty_text_def)
qed

text \<open>
  Claim C7, as the code has it. In an authenticated, online session whose current user has a
  truthy id, when the remote service answers the listing with a truthy \<^verbatim>\<open>success\<close> and
  an array of records (JSON objects; an absent \<^verbatim>\<open>data\<close> counts as the empty array),
  \<^verbatim>\<open>downloadAllData\<close> returns that array and the new state is determined by it: the entry
  of the identity in the store is exactly the JSON of the array, whatever it held before, so
  no local-only record survives; every other entry is untouched; \<^verbatim>\<open>getCachedData\<close> then
  returns the records of the array, each with \<^verbatim>\<open>importedAt\<close> replaced by
  \<^verbatim>\<open>new Date(importedAt)\<close>; and the sync status is \<^verbatim>\<open>idle\<close>.
\<close>

theorem download_overwrites_cache:
  assumes "isLoggedIn c" and "isOnline c"
    and "fetch (GET_data (getAuthHeader c)) w = (Responded r, w')"
    and "get_prop r ''success'' = Inr s" and "truthy s"
    and "js_or (opt_prop r ''data'') (Arr []) = Arr xs" and "list_all is_record xs"
    and "truthy (currentUserId c)"
  shows "\<exists>c'. downloadAllData newDate fetch c w =
             Inr (\<lparr>success = True, res_id = Undefined, res_data = Arr xs, error = Undefined\<rparr>,
                  c', w') \<and>
           c' = c\<lparr>syncStatus := Idle, lastSyncTime := Some (clock c),
                  localStorage := setItem (cache_key (currentUserId c)) (Json (Arr xs))
                                    (localStorage c)\<rparr> \<and>
           getItem (localStorage c') (cache_key (currentUserId c)) = Some (Json (Arr xs)) \<and>
           getCachedData newDate (currentUserId c) (localStorage c') =
             Inr (map (revived newDate) xs)"
proof -
  let ?st = "setItem (cache_key (currentUserId c)) (Json (Arr xs)) (localStorage c)"
  have stored: "getItem ?st (cache_key (currentUserId c)) = Some (Json (Arr xs))"
    by (simp add: getItem_setItem)
  have "downloadAllData newDate fetch c w =
      Inr (\<lparr>success = True, res_id = Undefined, res_data = Arr xs, error = Undefined\<rparr>,
           c\<lparr>syncStatus := Idle, lastSyncTime := Some (clock c), localStorage := ?st\<rparr>, w')"
    using assms cacheData_records [OF assms(8,7), of "localStorage c"]
    by (simp add: downloadAllData_def Let_def)
      (simp add: currentUserId_def setSyncStatus_def)
  with stored show ?thesis
    by (simp add: getCachedData_records [OF assms(8,7)])
qed

theorem download_overwrites_cache_witness:
  "downloadAllData invalid_date scripted
     (session\<lparr>localStorage := [(cache_key (Num 1), Json (Arr [feb]))]\<rparr>) [Responded jan_listing] =
     Inr (\<lparr>success = True, res_id = Undefined, res_data = Arr [jan], error = Undefined\<rparr>,
          session\<lparr>localStorage := [(cache_key (Num 1), Json (Arr [jan]))],
                   syncStatus := Idle, lastSyncTime := Some 7\<rparr>, []) \<and>
   getCachedData invalid_date (Num 1) [(cache_key (Num 1), Json (Arr [jan]))] =
     Inr [Obj [(''monthId'', Str ''m1''), (''monthName'', Str ''Jan''),
               (''importedAt'', Date None)]]"
proof -
  let ?c = "session\<lparr>localStorage := [(cache_key (Num 1), Json (Arr [feb]))]\<rparr>"
  have pre: "isLoggedIn ?c" "isOnline ?c"
    by simp_all
  have req: "scripted (GET_data (getAuthHeader ?c)) [Responded jan_listing] =
               (Responded jan_listing, [])"
    by (simp add: scripted_def)
  have ok: "get_prop jan_listing ''success'' = Inr (Bool True)" "truthy (Bool True)"
    by (simp_all add: jan_listing_def)
  have data: "js_or (opt_prop jan_listing ''data'') (Arr []) = Arr [jan]"
    by (simp add: jan_listing_def js_or_def opt_prop_def)
  have recs: "list_all is_record [jan]"
    by (simp add: jan_def)
  have uid: "truthy (currentUserId ?c)"
    by simp
  have set: "setItem (cache_key (Num 1)) (Json (Arr [jan])) [(cache_key (Num 1), Json (Arr [feb]))]
            = [(cache_key (Num 1), Json (Arr [jan]))]"
    by (simp add: setItem_def)
  have rv: "revived invalid_date jan = Obj [(''monthId'', Str ''m1''), (''monthName'', Str ''Jan''),
               (''importedAt'', Date None)]"
    by (simp add: revived_def spread_with_def jan_def)
  have "downloadAllData invalid_date scripted ?c [Responded jan_listing] =
     Inr (\<lparr>success = True, res_id = Undefined, res_data = Arr [jan], error = Undefined\<rparr>,
          ?c\<lparr>syncStatus := Idle, lastSyncTime := Some (clock ?c),
              localStorage := [(cache_key (Num 1), Json (Arr [jan]))]\<rparr>, []) \<and>
   getCachedData invalid_date (Num 1) [(cache_key (Num 1), Json (Arr [jan]))] =
     Inr [Obj [(''monthId'', Str ''m1''), (''monthName'', Str ''Jan''),
               (''importedAt'', Date None)]]"
    using download_overwrites_cache [where c = ?c and fetch = scripted
        and w = "[Responded jan_listing]" and r = jan_listing and w' = "[]" and s = "Bool True"
        and xs = "[jan]" and newDate = invalid_date, OF pre req ok data recs uid] set rv
    by auto
  then show ?thesis
    by (simp add: session_def)
qed

text \<open>
  The claim as stated fails for an authenticated user without a truthy id. A current user
  without an id (as \<^verbatim>\<open>register\<close> builds it when the response carries no user) and a
  current user with id 0 each download one record successfully; the store stays empty, and
  \<^verbatim>\<open>getCachedData\<close> for the identity returns nothing.
\<close>

theorem download_overwrites_cache_counterexample:
  "downloadAllData invalid_date scripted (session\<lparr>currentUser := alice_without_id\<rparr>)
     [Responded jan_listing] =
     Inr (\<lparr>success = True, res_id = Undefined, res_data = Arr [jan], error = Undefined\<rparr>,
          session\<lparr>currentUser := alice_without_id, syncStatus := Idle, lastSyncTime := Some 7,
                   localStorage := []\<rparr>, []) \<and>
   getCachedData invalid_date (currentUserId (session\<lparr>currentUser := alice_without_id\<rparr>)) [] = Inr [] \<and>
   downloadAllData invalid_date scripted (session\<lparr>currentUser := alice_id_0\<rparr>)
     [Responded jan_listing] =
     Inr (\<lparr>success = True, res_id = Undefined, res_data = Arr [jan], error = Undefined\<rparr>,
          session\<lparr>currentUser := alice_id_0, syncStatus := Idle, lastSyncTime := Some 7,
                   localStorage := []\<rparr>, []) \<and>
   getCachedData invalid_date (currentUserId (session\<lparr>currentUser := alice_id_0\<rparr>)) [] = Inr []"
  by (simp add: downloadAllData_def Let_def isLoggedIn_def isOnline_def scripted_def
      jan_listing_def currentUserId_def opt_prop_def js_or_def setSyncStatus_def
      alice_without_id_def alice_id_0_def session_def getCachedData_def)

section \<open>Login: an unknown user and a wrong password\<close>

lemma dropWhile_id: "xs = [] \<or> \<not> P (hd xs) \<Longrightarrow> dropWhile P xs = xs"
  by (cases xs) auto

lemma hd_dropWhile_not: "dropWhile P xs \<noteq> [] \<Longrightarrow> \<not> P (hd (dropWhile P xs))"
  by (simp add: hd_dropWhile)

text \<open>Dropping at both ends a second time changes nothing.\<close>

lemma strip_idem:
  "rev (dropWhile P (rev (dropWhile P (rev (dropWhile P (rev (dropWhile P xs))))))) =
   rev (dropWhile P (rev (dropWhile P xs)))"
proof -
  define a where "a = dropWhile P xs"
  define b where "b = dropWhile P (rev a)"
  have ys: "rev (dropWhile P (rev (dropWhile P xs))) = rev b"
    by (simp add: a_def b_def)
  have b_ok: "b = [] \<or> \<not> P (hd b)"
    unfolding b_def using hd_dropWhile_not [of P "rev a"] by blast
  have a_ok: "a = [] \<or> \<not> P (hd a)"
    unfolding a_def using hd_dropWhile_not [of P xs] by blast
  have "rev a = takeWhile P (rev a) @ b"
    by (simp add: b_def)
  then have "a = rev b @ rev (takeWhile P (rev a))"
    by (metis rev_append rev_rev_ident)
  then have "rev b \<noteq> [] \<Longrightarrow> a \<noteq> [] \<and> hd (rev b) = hd a"
    by (metis append_is_Nil_conv hd_append2)
  with a_ok have rb_ok: "rev b = [] \<or> \<not> P (hd (rev b))"
    by (cases "rev b = []") auto
  have "dropWhile P (rev b) = rev b"
    using rb_ok by (rule dropWhile_id)
  moreover have "dropWhile P b = b"
    using b_ok by (rule dropWhile_id)
  ultimately show ?thesis
    by (simp add: ys)
qed

text \<open>What is dropped at both ends leaves a run of consecutive elements.\<close>

lemma strip_run: "\<exists>n k. rev (dropWhile P (rev (dropWhile P xs))) = take k (drop n xs)"
proof -
  have "dropWhile P xs = drop (length (takeWhile P xs)) xs"
    by (rule dropWhile_eq_drop)
  moreover have "\<And>zs. rev (dropWhile P (rev zs)) = take (length zs - length (takeWhile P (rev zs))) zs"
    by (simp add: dropWhile_eq_drop rev_drop)
  ultimately show ?thesis by metis
qed

text \<open>The characters of a string: each is a byte followed by continuation bytes, and each
  but the first starts with a byte that is not a continuation byte. A list of this form is
  the list of the characters of its concatenation.\<close>

lemma code_points_shape:
  "p \<in> set (code_points s) \<Longrightarrow> p \<noteq> [] \<and> (\<forall>c \<in> set (tl p). is_continuation c)"
proof (induction s arbitrary: p rule: code_points.induct)
  case 1
  then show ?case by simp
next
  case (2 c s)
  then show ?case
    by (auto dest: set_takeWhileD)
qed

lemma code_points_start:
  "p \<in> set (tl (code_points s)) \<Longrightarrow> \<not> is_continuation (hd p)"
proof (induction s arbitrary: p rule: code_points.induct)
  case 1
  then show ?case by simp
next
  case (2 c s)
  show ?case
  proof (cases "dropWhile is_continuation s")
    case Nil
    with 2 show ?thesis by simp
  next
    case (Cons d t)
    then have d: "\<not> is_continuation d"
      using hd_dropWhile_not [of is_continuation s] by simp
    from 2(2) Cons have "p = d # takeWhile is_continuation t \<or>
        p \<in> set (tl (code_points (dropWhile is_continuation s)))"
      by auto
    with d 2(1) show ?thesis by auto
  qed
qed

lemma code_points_concat:
  assumes "\<forall>p \<in> set ps. p \<noteq> [] \<and> (\<forall>c \<in> set (tl p). is_continuation c)"
    and "\<forall>p \<in> set (tl ps). \<not> is_continuation (hd p)"
  shows "code_points (concat ps) = ps"
  using assms
proof (induction ps)
  case Nil
  then show ?case by simp
next
  case (Cons p ps)
  from Cons.prems(1) obtain c cs where p: "p = c # cs" and cs: "\<forall>c \<in> set cs. is_continuation c"
    by (cases p) auto
  have rest: "concat ps = [] \<or> \<not> is_continuation (hd (concat ps))"
  proof (cases ps)
    case Nil
    then show ?thesis by simp
  next
    case (Cons q qs)
    with Cons.prems have "q \<noteq> []" "\<not> is_continuation (hd q)"
      by auto
    with Cons show ?thesis by simp
  qed
  have split: "\<And>r. r = [] \<or> \<not> is_continuation (hd r) \<Longrightarrow>
      takeWhile is_continuation (cs @ r) = cs \<and> dropWhile is_continuation (cs @ r) = r"
    using cs by (case_tac r) simp_all
  have tw: "takeWhile is_continuation (cs @ concat ps) = cs"
    and dw: "dropWhile is_continuation (cs @ concat ps) = concat ps"
    using split [OF rest] by blast+
  have "\<forall>p \<in> set (tl ps). \<not> is_continuation (hd p)"
    using Cons.prems(2) by (cases ps) auto
  with Cons.IH Cons.prems(1) have "code_points (concat ps) = ps"
    by simp
  with tw dw p show ?case by simp
qed

lemma set_tl_run: "set (tl (take k (drop n xs))) \<subseteq> set (tl xs)"
proof -
  have "tl (take k (drop n xs)) = take (k - 1) (drop n (tl xs))"
    by (simp add: tl_take drop_Suc tl_drop)
  then show ?thesis
    by (metis set_take_subset set_drop_subset subset_trans)
qed

lemma trim_trim: "trim (trim s) = trim s"
proof -
  define qs where "qs = rev (dropWhile is_space (rev (dropWhile is_space (code_points s))))"
  obtain n k where run: "qs = take k (drop n (code_points s))"
    unfolding qs_def using strip_run by blast
  have "set qs \<subseteq> set (code_points s)"
    unfolding run by (metis set_take_subset set_drop_subset subset_trans)
  then have shape: "\<forall>p \<in> set qs. p \<noteq> [] \<and> (\<forall>c \<in> set (tl p). is_continuation c)"
    using code_points_shape by blast
  have "set (tl qs) \<subseteq> set (tl (code_points s))"
    unfolding run by (rule set_tl_run)
  then have start: "\<forall>p \<in> set (tl qs). \<not> is_continuation (hd p)"
    using code_points_start by blast
  have "code_points (concat qs) = qs"
    using shape start by (rule code_points_concat)
  moreover have "rev (dropWhile is_space (rev (dropWhile is_space qs))) = qs"
    unfolding qs_def by (rule strip_idem)
  ultimately show ?thesis
    by (simp add: trim_def qs_def)
qed

text \<open>
  Examples. White space outside ASCII is trimmed (here an ideographic space in front, a
  no-break space and a line feed behind), white space inside a name is kept, and a character
  that ends in the byte \<^verbatim>\<open>A0\<close> is not taken for a no-break space. A password of two
  Chinese characters has length 2 and is refused by the validator; a character above
  \<^verbatim>\<open>U+FFFF\<close> counts twice.
\<close>

lemma trim_examples:
  "trim '' alice '' = ''alice''"
  "trim ([CHR 0xE3, CHR 0x80, CHR 0x80] @ ''alice'' @ [CHR 0xC2, CHR 0xA0, CHR 0x0A]) = ''alice''"
  "trim (''al'' @ [CHR 0xE3, CHR 0x80, CHR 0x80] @ ''ice'') =
     ''al'' @ [CHR 0xE3, CHR 0x80, CHR 0x80] @ ''ice''"
  "trim [CHR 0xE5, CHR 0xAE, CHR 0xA0] = [CHR 0xE5, CHR 0xAE, CHR 0xA0]"
  "trim [CHR 0xEF, CHR 0xBB, CHR 0xBF, CHR 0x09] = []"
  by (simp_all add: trim_def is_space_def white_space_def is_continuation_def)

lemma str_length_examples:
  "str_length ''secret'' = 6"
  "str_length [CHR 0xE5, CHR 0xAF, CHR 0x86, CHR 0xE7, CHR 0xA0, CHR 0x81] = 2"
  "str_length [CHR 0xF0, CHR 0x9F, CHR 0x98, CHR 0x80, CHR ''a''] = 3"
  "validatePassword (Str [CHR 0xE5, CHR 0xAF, CHR 0x86, CHR 0xE7, CHR 0xA0, CHR 0x81]) =
     Some msg_password_too_short"
  "validatePassword (Str ''secret'') = None"
  by (simp_all add: str_length_def is_continuation_def)

text \<open>A name with an ideographic space in front and the right password logs in.\<close>

lemma login_route_trims:
  "login_route matches_secret1 jwt alice_users
     (Obj [(''username'', Str ([CHR 0xE3, CHR 0x80, CHR 0x80] @ ''alice'')),
           (''password'', Str ''secret1'')]) =
     (200, Obj [(''success'', Bool True), (''token'', Str ''jwt''),
                (''user'', Obj [(''id'', Num 1), (''username'', Str ''alice'')])])"
proof -
  have "trim ([CHR 0xE3, CHR 0x80, CHR 0x80] @ ''alice'') = ''alice''"
    by (simp add: trim_def is_space_def white_space_def is_continuation_def)
  then show ?thesis
    by (simp add: login_route_def Let_def opt_prop_def queryOne_def alice_users_def
        verifyPassword_def matches_secret1_def jwt_def)
qed

text \<open>
  The route answers a name that is not registered with the generic 401 response, whatever
  the password is, and a registered name with the same response when the password is a string
  that does not match.
\<close>

lemma login_route_unknown:
  assumes "queryOne (\<lambda>u. username u = trim name) users = None"
  shows "login_route bcrypt_compare generateToken users
           (Obj [(''username'', Str name), (''password'', password)]) =
         json_error 401 msg_bad_credentials"
  using assms by (simp add: login_route_def Let_def opt_prop_def)

lemma login_route_mismatch:
  assumes "queryOne (\<lambda>u. username u = trim name) users = Some row"
    and "\<not> bcrypt_compare pw (password_hash row)"
  shows "login_route bcrypt_compare generateToken users
           (Obj [(''username'', Str name), (''password'', Str pw)]) =
         json_error 401 msg_bad_credentials"
  using assms by (simp add: login_route_def Let_def opt_prop_def verifyPassword_def)

text \<open>
  \<^verbatim>\<open>AuthManager.login\<close> sends a request only when the password is a string, so against
  this route it returns one and the same failure for a name that is not registered and for
  a registered name with a password that does not match; the session is unchanged.
\<close>

lemma login_rejected:
  assumes "\<And>body. fetch (POST_login body) w =
             (Responded (snd (login_route bcrypt_compare generateToken users body)), w)"
    and "validateUsername uname = None" and "validatePassword password = None"
    and "login_route bcrypt_compare generateToken users
           (Obj [(''username'', Str (trim (str_of uname))), (''password'', password)]) =
         json_error 401 msg_bad_credentials"
  shows "login fetch uname password c w = (failure (Str msg_bad_credentials), c, w)"
proof -
  from assms(3) obtain pw where pw: "password = Str pw"
    by (cases password) simp_all
  show ?thesis
    using assms(2,3,4)
    by (simp add: login_def assms(1) pw json_error_def js_or_def opt_prop_def
        msg_bad_credentials_def)
qed

lemma login_same_failure:
  assumes "\<And>body. fetch (POST_login body) w =
             (Responded (snd (login_route bcrypt_compare generateToken users body)), w)"
    and "validateUsername name_a = None" and "validatePassword pw_a = None"
    and "validateUsername name_b = None" and "validatePassword pw_b = None"
    and "queryOne (\<lambda>u. username u = trim (str_of name_a)) users = None"
    and "queryOne (\<lambda>u. username u = trim (str_of name_b)) users = Some row"
    and "verifyPassword bcrypt_compare pw_b (password_hash row) \<noteq> Some True"
  shows "login fetch name_a pw_a c w = (failure (Str msg_bad_credentials), c, w) \<and>
         login fetch name_b pw_b c w = (failure (Str msg_bad_credentials), c, w)"
proof -
  from assms(5) obtain pw where pw: "pw_b = Str pw"
    by (cases pw_b) simp_all
  have unknown: "login_route bcrypt_compare generateToken users
      (Obj [(''username'', Str (trim (str_of name_a))), (''password'', pw_a)]) =
      json_error 401 msg_bad_credentials"
    using assms(6) by (intro login_route_unknown) (simp add: trim_trim)
  have "\<not> bcrypt_compare pw (password_hash row)"
    using assms(8) by (simp add: pw verifyPassword_def)
  with assms(7) have mismatch: "login_route bcrypt_compare generateToken users
      (Obj [(''username'', Str (trim (str_of name_b))), (''password'', pw_b)]) =
      json_error 401 msg_bad_credentials"
    unfolding pw by (intro login_route_mismatch) (simp_all add: trim_trim)
  have "login fetch name_a pw_a c w = (failure (Str msg_bad_credentials), c, w)"
    using assms(1,2,3) unknown
    by (rule login_rejected [where bcrypt_compare = bcrypt_compare
          and generateToken = generateToken and users = users])
  moreover have "login fetch name_b pw_b c w = (failure (Str msg_bad_credentials), c, w)"
    using assms(1,4,5) mismatch
    by (rule login_rejected [where bcrypt_compare = bcrypt_compare
          and generateToken = generateToken and users = users])
  ultimately show ?thesis
    by simp
qed

text \<open>
  Claim C8 at a failing input. The table holds the one user \<open>alice\<close>. A request to
  \<^verbatim>\<open>POST /login\<close> names \<open>bob\<close>, who is not registered, with the number 123456 as
  password; a second request names \<open>alice\<close> with the same password. The route answers the
  first with status 401 and the message "wrong user name or password". For the second the
  password check throws, since the password is not a string, and the route answers with
  status 500 and the message "server error": the two answers tell that \<open>alice\<close> is
  registered and \<open>bob\<close> is not.
\<close>

theorem login_reveals_registered_name:
  "login_route bcrypt_compare generateToken alice_users bob_123456 =
     (401, Obj [(''success'', Bool False), (''error'', Str msg_bad_credentials)]) \<and>
   login_route bcrypt_compare generateToken alice_users alice_123456 =
     (500, Obj [(''success'', Bool False), (''error'', Str msg_server_error)])"
proof -
  have names: "trim ''bob'' = ''bob''" "trim ''alice'' = ''alice''"
    by (simp_all add: trim_def is_space_def white_space_def is_continuation_def)
  show ?thesis
    by (simp add: login_route_def Let_def opt_prop_def names queryOne_def alice_users_def
        bob_123456_def alice_123456_def verifyPassword_def json_error_def)
qed

theorem login_reveals_registered_name_witness:
  "login_route matches_secret1 jwt alice_users bob_123456 =
     (401, Obj [(''success'', Bool False), (''error'', Str msg_bad_credentials)]) \<and>
   login_route matches_secret1 jwt alice_users alice_123456 =
     (500, Obj [(''success'', Bool False), (''error'', Str msg_server_error)])"
  by (rule login_reveals_registered_name)

section \<open>Uploading the same record twice\<close>

text \<open>
  The body that \<^verbatim>\<open>uploadData\<close> posts holds the record under the key
  \<^verbatim>\<open>monthData\<close>, so it has no \<^verbatim>\<open>monthId\<close> of its own: the handler answers 400
  before its first database statement, whatever the record is.
\<close>

lemma wrapped_body_rejected:
  "data_post upsert (to_json (Obj [(''monthData'', monthData)])) db =
     (json_error 400 msg_month_id_empty, db)"
  by (cases "monthData = Undefined") (simp_all add: data_post_def)

lemma remote_rejects_upload:
  "remote upsert others (POST_data hdr (to_json (Obj [(''monthData'', monthData)]))) db =
     (Responded (Obj [(''success'', Bool False), (''error'', Str msg_month_id_empty)]), db)"
  by (simp only: remote_def request.case wrapped_body_rejected json_error_def prod.case snd_conv)

lemma uploadData_remote_rejected:
  assumes "isLoggedIn c" and "isOnline c"
  shows "uploadData (remote upsert others) monthData c db =
           (failure (Str msg_month_id_empty), c\<lparr>syncStatus := Error\<rparr>, db)"
proof -
  have "js_or (opt_prop (Obj [(''success'', Bool False), (''error'', Str msg_month_id_empty)])
      ''error'') (Str msg_upload_failed) = Str msg_month_id_empty"
    by (simp add: js_or_def opt_prop_def msg_month_id_empty_def)
  then show ?thesis
    using assms
    by (simp add: uploadData_def remote_rejects_upload Let_def setSyncStatus_def
        del: to_json.simps)
qed

text \<open>
  Claim C6 at a failing input. User \<open>alice\<close>, logged in and online, uploads the record
  \<open>jan\<close> twice. Each upload is answered with status 400 and the message "month id must not
  be empty": it resolves to a failure and sets the sync status to \<^verbatim>\<open>error\<close>, the
  database part of the handler is not run and the database is as before, so no row is
  inserted by the first upload and none is updated by the second. The same record posted as
  the body itself passes the check of the required fields.
\<close>

theorem upload_twice_rejected:
  "uploadData (remote upsert others) jan session db =
     (failure (Str msg_month_id_empty), session\<lparr>syncStatus := Error\<rparr>, db) \<and>
   uploadData (remote upsert others) jan (session\<lparr>syncStatus := Error\<rparr>) db =
     (failure (Str msg_month_id_empty), session\<lparr>syncStatus := Error\<rparr>, db) \<and>
   data_post upsert jan db = upsert ''m1'' ''Jan'' jan db"
proof -
  have "isLoggedIn (session\<lparr>syncStatus := Error\<rparr>)" "isOnline (session\<lparr>syncStatus := Error\<rparr>)"
    by (simp_all add: isLoggedIn_def isOnline_def session_def alice_def)
  then have "uploadData (remote upsert others) jan (session\<lparr>syncStatus := Error\<rparr>) db =
      (failure (Str msg_month_id_empty), session\<lparr>syncStatus := Error\<rparr>, db)"
    using uploadData_remote_rejected [of "session\<lparr>syncStatus := Error\<rparr>" upsert others jan db]
    by simp
  moreover have "uploadData (remote upsert others) jan session db =
      (failure (Str msg_month_id_empty), session\<lparr>syncStatus := Error\<rparr>, db)"
    by (rule uploadData_remote_rejected) simp_all
  moreover have "data_post upsert jan db = upsert ''m1'' ''Jan'' jan db"
    by (simp add: data_post_def jan_def opt_prop_def)
  ultimately show ?thesis by simp
qed

section \<open>Replaying the pending operations\<close>

text \<open>
  \<^verbatim>\<open>uploadData\<close> and \<^verbatim>\<open>deleteData\<close> write the store in one way only: a failed call
  may append its operation to the log. The replay loop therefore keeps a well-formed log
  well-formed and makes it longer by at most one entry for each failure it counts.
\<close>

lemma is_json_to_json: "v \<noteq> Undefined \<Longrightarrow> is_json (to_json v)"
proof (induction v)
  case (Date d)
  then show ?case by (cases d) auto
next
  case (Arr xs)
  then show ?case by (auto simp: list_all_iff)
next
  case (Obj kvs)
  then show ?case by (fastforce simp: list_all_iff)
qed auto

lemma add_keeps_log:
  assumes "getPendingOperations st = Arr log" and "list_all is_json log"
    and "operation \<noteq> Undefined"
  shows "getPendingOperations (addPendingOperation operation st) = Arr (log @ [to_json operation])"
    and "list_all is_json (log @ [to_json operation])"
  using assms getPendingOperations_add [OF assms(1,2), of operation]
  by (simp_all add: is_json_to_json)

lemma uploadData_store:
  assumes "uploadData fetch monthData c w = (r, c', w')"
  shows "navigator_onLine c' = navigator_onLine c \<and>
         (localStorage c' = localStorage c \<or>
          \<not> success r \<and>
          localStorage c' = addPendingOperation (upload_op monthData (clock c)) (localStorage c))"
  using assms
  by (auto simp: uploadData_def Let_def pend_def setSyncStatus_def failure_def
      split: if_splits prod.splits fetch_result.splits sum.splits)

lemma deleteData_store:
  assumes "deleteData fetch monthId c w = (r, c', w')"
  shows "navigator_onLine c' = navigator_onLine c \<and>
         (localStorage c' = localStorage c \<or>
          \<not> success r \<and>
          localStorage c' = addPendingOperation (delete_op monthId (clock c)) (localStorage c))"
  using assms
  by (auto simp: deleteData_def Let_def pend_def setSyncStatus_def failure_def
      split: if_splits prod.splits fetch_result.splits sum.splits)

lemma replay_op_log:
  assumes "getPendingOperations (localStorage c) = Arr log" and "list_all is_json log"
    and "replay_op fetch operation (c, w, s, f) = (c', w', s', f')"
  shows "\<exists>extra. getPendingOperations (localStorage c') = Arr (log @ extra) \<and>
           list_all is_json extra \<and> length extra + f \<le> f' \<and> s \<le> s' \<and>
           s' + f' \<le> s + f + 1 \<and> navigator_onLine c' = navigator_onLine c"
proof (cases "get_prop operation ''type''")
  case (Inl e)
  with assms show ?thesis
    by (auto simp: replay_op_def intro: exI [of _ "[]"])
next
  case (Inr ty)
  have up: "upload_op x n \<noteq> Undefined" "delete_op x n \<noteq> Undefined" for x n
    by (simp_all add: upload_op_def delete_op_def)
  consider (upload) "ty = Str ''upload''" | (delete) "ty = Str ''delete''"
    | (other) "ty \<noteq> Str ''upload''" "ty \<noteq> Str ''delete''"
    by blast
  then show ?thesis
  proof cases
    case upload
    obtain r c1 w1 where u: "uploadData fetch (opt_prop operation ''data'') c w = (r, c1, w1)"
      by (cases "uploadData fetch (opt_prop operation ''data'') c w")
    from uploadData_store [OF u] show ?thesis
    proof (elim conjE disjE)
      assume "localStorage c1 = localStorage c" "navigator_onLine c1 = navigator_onLine c"
      with assms Inr upload u show ?thesis
        by (auto simp: replay_op_def split: if_splits intro: exI [of _ "[]"])
    next
      assume "\<not> success r" "navigator_onLine c1 = navigator_onLine c"
        and "localStorage c1 =
          addPendingOperation (upload_op (opt_prop operation ''data'') (clock c)) (localStorage c)"
      with assms Inr upload u add_keeps_log [OF assms(1,2) up(1)] show ?thesis
        by (auto simp: replay_op_def
            intro: exI [of _ "[to_json (upload_op (opt_prop operation ''data'') (clock c))]"])
    qed
  next
    case delete
    obtain r c1 w1 where u: "deleteData fetch (opt_prop operation ''monthId'') c w = (r, c1, w1)"
      by (cases "deleteData fetch (opt_prop operation ''monthId'') c w")
    from deleteData_store [OF u] show ?thesis
    proof (elim conjE disjE)
      assume "localStorage c1 = localStorage c" "navigator_onLine c1 = navigator_onLine c"
      with assms Inr delete u show ?thesis
        by (auto simp: replay_op_def split: if_splits intro: exI [of _ "[]"])
    next
      assume "\<not> success r" "navigator_onLine c1 = navigator_onLine c"
        and "localStorage c1 =
          addPendingOperation (delete_op (opt_prop operation ''monthId'') (clock c)) (localStorage c)"
      with assms Inr delete u add_keeps_log [OF assms(1,2) up(2)] show ?thesis
        by (auto simp: replay_op_def
            intro: exI [of _ "[to_json (delete_op (opt_prop operation ''monthId'') (clock c))]"])
    qed
  next
    case other
    with assms Inr show ?thesis
      by (auto simp: replay_op_def intro: exI [of _ "[]"])
  qed
qed

lemma replay_log:
  assumes "getPendingOperations (localStorage c) = Arr log" and "list_all is_json log"
  shows "\<exists>c' w' s' f' extra. replay fetch ops (c, w, s, f) = (c', w', s', f') \<and>
           getPendingOperations (localStorage c') = Arr (log @ extra) \<and>
           list_all is_json extra \<and> length extra + f \<le> f' \<and> s \<le> s' \<and>
           s' + f' \<le> s + f + length ops \<and> navigator_onLine c' = navigator_onLine c"
  using assms
proof (induction ops arbitrary: c w s f log)
  case Nil
  then show ?case by (auto intro: exI [of _ "[]"])
next
  case (Cons operation ops)
  obtain c1 w1 s1 f1 where step: "replay_op fetch operation (c, w, s, f) = (c1, w1, s1, f1)"
    by (cases "replay_op fetch operation (c, w, s, f)") auto
  from replay_op_log [OF Cons.prems step] obtain e1
    where e1: "getPendingOperations (localStorage c1) = Arr (log @ e1)" "list_all is_json e1"
      "length e1 + f \<le> f1" "s \<le> s1" "s1 + f1 \<le> s + f + 1"
      "navigator_onLine c1 = navigator_onLine c"
    by blast
  have "list_all is_json (log @ e1)"
    using Cons.prems(2) e1(2) by simp
  from Cons.IH [OF e1(1) this, of w1 s1 f1] obtain c' w' s' f' e2
    where e2: "replay fetch ops (c1, w1, s1, f1) = (c', w', s', f')"
      "getPendingOperations (localStorage c') = Arr ((log @ e1) @ e2)" "list_all is_json e2"
      "length e2 + f1 \<le> f'" "s1 \<le> s'" "s' + f' \<le> s1 + f1 + length ops"
      "navigator_onLine c' = navigator_onLine c1"
    by blast
  show ?case
    using step e1 e2
    by (intro exI [of _ c'] exI [of _ w'] exI [of _ s'] exI [of _ f'] exI [of _ "e1 @ e2"]) auto
qed

text \<open>When the remote service answers every request, nothing is appended.\<close>

lemma get_prop_answered: "d \<noteq> Null \<Longrightarrow> d \<noteq> Undefined \<Longrightarrow> \<exists>v. get_prop d k = Inr v"
  by (cases d) auto

lemma uploadData_answered:
  assumes "isOnline c" and "always_answers fetch"
    and "uploadData fetch monthData c w = (r, c', w')"
  shows "localStorage c' = localStorage c"
proof -
  let ?req = "POST_data (getAuthHeader (setSyncStatus Syncing c))
                (to_json (Obj [(''monthData'', monthData)]))"
  from assms(2) obtain d w1 where "fetch ?req w = (Responded d, w1)" "d \<noteq> Null" "d \<noteq> Undefined"
    unfolding always_answers_def by blast
  moreover from this obtain v where "get_prop d ''success'' = Inr v"
    using get_prop_answered by blast
  ultimately show ?thesis
    using assms(1,3)
    by (auto simp: uploadData_def Let_def setSyncStatus_def split: if_splits)
qed

lemma deleteData_answered:
  assumes "isOnline c" and "always_answers fetch"
    and "deleteData fetch monthId c w = (r, c', w')"
  shows "localStorage c' = localStorage c"
proof -
  let ?req = "DELETE_data (getAuthHeader (setSyncStatus Syncing c)) (js_to_string monthId)"
  from assms(2) obtain d w1 where "fetch ?req w = (Responded d, w1)" "d \<noteq> Null" "d \<noteq> Undefined"
    unfolding always_answers_def by blast
  moreover from this obtain v where "get_prop d ''success'' = Inr v"
    using get_prop_answered by blast
  ultimately show ?thesis
    using assms(1,3)
    by (auto simp: deleteData_def Let_def setSyncStatus_def split: if_splits)
qed

lemma replay_op_answered:
  assumes "isOnline c" and "always_answers fetch"
    and "replay_op fetch operation (c, w, s, f) = (c', w', s', f')"
  shows "localStorage c' = localStorage c"
  using assms uploadData_answered [OF assms(1,2)] deleteData_answered [OF assms(1,2)]
  by (auto simp: replay_op_def split: sum.splits if_splits prod.splits)

lemma replay_op_online:
  assumes "replay_op fetch operation (c, w, s, f) = (c', w', s', f')"
  shows "isOnline c' = isOnline c"
  using assms uploadData_store deleteData_store
  by (fastforce simp: replay_op_def isOnline_def split: sum.splits if_splits prod.splits)

lemma replay_answered:
  assumes "isOnline c" and "always_answers fetch"
    and "replay fetch ops (c, w, s, f) = (c', w', s', f')"
  shows "localStorage c' = localStorage c"
  using assms
proof (induction ops arbitrary: c w s f)
  case Nil
  then show ?case by simp
next
  case (Cons operation ops)
  obtain c1 w1 s1 f1 where step: "replay_op fetch operation (c, w, s, f) = (c1, w1, s1, f1)"
    by (cases "replay_op fetch operation (c, w, s, f)") auto
  from replay_op_answered [OF Cons.prems(1,2) step] replay_op_online [OF step] Cons.prems(1)
  have "localStorage c1 = localStorage c" "isOnline c1"
    by simp_all
  with Cons.IH [of c1 w1 s1 f1] Cons.prems(2,3) step show ?case
    by simp
qed

lemma getPendingOperations_cleared:
  "getPendingOperations (clearPendingOperations st) = Arr []"
  by (simp add: getPendingOperations_def clearPendingOperations_def getItem_removeItem)

text \<open>
  Claim C2, as the code has it. \<^verbatim>\<open>syncPendingOperations\<close> replays each operation through
  \<^verbatim>\<open>uploadData\<close> or \<^verbatim>\<open>deleteData\<close>, the path of a first-time mutation with its
  enqueue-on-failure branch. For a run while online on a well-formed log: the run resolves,
  the log stays well-formed, it is longer than before by at most the number of failed
  operations of the run, the counted operations are at most the entries of the log, and the
  log is not longer than before when the remote service answers every request (an operation
  answered with \<^verbatim>\<open>success: false\<close> appends nothing; one whose request throws is appended
  again).
\<close>

theorem sync_log_growth:
  assumes "isOnline c" and "getPendingOperations (localStorage c) = Arr log"
    and "list_all is_json log"
  shows "\<exists>res c' w' log'. syncPendingOperations fetch c w = Inr (res, c', w') \<and>
           getPendingOperations (localStorage c') = Arr log' \<and>
           length log' \<le> length log + failed res \<and>
           synced res + failed res \<le> length log \<and>
           (always_answers fetch \<longrightarrow> length log' \<le> length log)"
proof (cases "log = []")
  case True
  with assms show ?thesis
    by (simp add: syncPendingOperations_def)
next
  case False
  let ?c1 = "setSyncStatus Syncing c"
  have start: "getPendingOperations (localStorage ?c1) = Arr log" "isOnline ?c1"
    using assms(1,2) by (simp_all add: setSyncStatus_def isOnline_def)
  from replay_log [OF start(1) assms(3), of fetch log w 0 0] obtain c2 w2 s2 f2 extra
    where run: "replay fetch log (?c1, w, 0, 0) = (c2, w2, s2, f2)"
      and after: "getPendingOperations (localStorage c2) = Arr (log @ extra)"
      "length extra + 0 \<le> f2" "s2 + f2 \<le> 0 + 0 + length log"
    by blast
  have quiet: "localStorage c2 = localStorage ?c1" if "always_answers fetch"
    using start(2) that run by (rule replay_answered)
  have len: "int (length log) \<noteq> 0"
    using False by simp
  show ?thesis
  proof (cases "s2 > 0")
    case True
    with assms(1,2) len run show ?thesis
      by (simp add: syncPendingOperations_def Let_def setSyncStatus_def
          getPendingOperations_cleared) (use after in simp)
  next
    case False
    have "length (log @ extra) \<le> length log" if "always_answers fetch"
      using quiet [OF that] after(1) start(1) by simp
    with False assms(1,2) len run after show ?thesis
      by (simp add: syncPendingOperations_def Let_def setSyncStatus_def)
  qed
qed

text \<open>Evaluation of the examples: logs of uploads of \<open>jan\<close> and \<open>feb\<close> in a store that
  holds nothing else.\<close>

lemma upload_op_json [simp]:
  "to_json (upload_op jan n) = upload_op jan n" "to_json (upload_op feb n) = upload_op feb n"
  "upload_op x n \<noteq> Undefined"
  "is_json (upload_op jan n)" "is_json (upload_op feb n)"
  by (simp_all add: upload_op_def jan_def feb_def)

lemma get_upload_op [simp]:
  "get_prop (upload_op x n) ''type'' = Inr (Str ''upload'')"
  "opt_prop (upload_op x n) ''data'' = x"
  by (simp_all add: upload_op_def opt_prop_def)

lemma store_simps [simp]:
  "getPendingOperations [(PENDING_OPS_KEY, Json v)] = v"
  "addPendingOperation x [(PENDING_OPS_KEY, Json (Arr ops))] =
     [(PENDING_OPS_KEY, Json (to_json (Arr (ops @ [x]))))]"
  "clearPendingOperations [(PENDING_OPS_KEY, t)] = []"
  by (simp_all add: getPendingOperations_def addPendingOperation_def getItem_def empty_text_def
      setItem_def JSON_stringify_def clearPendingOperations_def removeItem_def)

theorem sync_log_growth_witness:
  "syncPendingOperations scripted
     (session\<lparr>localStorage := [(PENDING_OPS_KEY, Json (Arr [upload_op jan 1]))]\<rparr>) [] =
     Inr (\<lparr>sync_success = False, synced = 0, failed = 1\<rparr>,
          session\<lparr>localStorage :=
                     [(PENDING_OPS_KEY, Json (Arr [upload_op jan 1, upload_op jan 7]))],
                   syncStatus := Error\<rparr>, []) \<and>
   length [upload_op jan 1, upload_op jan 7] \<le> length [upload_op jan 1] + 1 \<and>
   always_answers refusing \<and>
   syncPendingOperations refusing
     (session\<lparr>localStorage := [(PENDING_OPS_KEY, Json (Arr [upload_op jan 1]))]\<rparr>) () =
     Inr (\<lparr>sync_success = False, synced = 0, failed = 1\<rparr>,
          session\<lparr>localStorage := [(PENDING_OPS_KEY, Json (Arr [upload_op jan 1]))],
                   syncStatus := Error\<rparr>, ())"
proof -
  let ?c = "session\<lparr>localStorage := [(PENDING_OPS_KEY, Json (Arr [upload_op jan 1]))]\<rparr>"
  have pre: "isOnline ?c" "getPendingOperations (localStorage ?c) = Arr [upload_op jan 1]"
    "list_all is_json [upload_op jan 1]"
    by simp_all
  have thrown: "syncPendingOperations scripted ?c [] =
      Inr (\<lparr>sync_success = False, synced = 0, failed = 1\<rparr>,
           session\<lparr>localStorage :=
                      [(PENDING_OPS_KEY, Json (Arr [upload_op jan 1, upload_op jan 7]))],
                    syncStatus := Error\<rparr>, [])"
    by (simp add: syncPendingOperations_def Let_def replay_op_def uploadData_def scripted_def
        pend_def setSyncStatus_def session_def failure_def isLoggedIn_def isOnline_def alice_def)
  have answers: "always_answers refusing"
    by (simp add: always_answers_def refusing_def server_error_body_def)
  have refused: "syncPendingOperations refusing ?c () =
      Inr (\<lparr>sync_success = False, synced = 0, failed = 1\<rparr>,
           session\<lparr>localStorage := [(PENDING_OPS_KEY, Json (Arr [upload_op jan 1]))],
                    syncStatus := Error\<rparr>, ())"
    by (simp add: syncPendingOperations_def Let_def replay_op_def uploadData_def refusing_def
        server_error_body_def opt_prop_def js_or_def
        pend_def setSyncStatus_def session_def failure_def isLoggedIn_def isOnline_def alice_def)
  show ?thesis
    using sync_log_growth [OF pre, of scripted "[]"] sync_log_growth [OF pre, of refusing "()"]
      thrown answers refused
    by simp
qed

text \<open>
  The claim as stated fails: the log holds one upload and the request throws (the server is
  unreachable although the browser reports a connection). The catch branch of
  \<^verbatim>\<open>uploadData\<close> appends the operation again, nothing succeeded, so nothing is cleared:
  the log holds two entries after the run.
\<close>

theorem sync_log_growth_counterexample:
  "syncPendingOperations scripted
     (session\<lparr>localStorage := [(PENDING_OPS_KEY, Json (Arr [upload_op jan 1]))]\<rparr>) [] =
     Inr (\<lparr>sync_success = False, synced = 0, failed = 1\<rparr>,
          session\<lparr>localStorage :=
                     [(PENDING_OPS_KEY, Json (Arr [upload_op jan 1, upload_op jan 7]))],
                   syncStatus := Error\<rparr>, []) \<and>
   length [upload_op jan 1] < length [upload_op jan 1, upload_op jan 7]"
  by (simp add: syncPendingOperations_def Let_def replay_op_def uploadData_def scripted_def
      pend_def setSyncStatus_def session_def failure_def isLoggedIn_def isOnline_def alice_def)

text \<open>
  What a run on a non-empty, well-formed log does in general: it reports success exactly
  when it counted no failure, sets the status to \<^verbatim>\<open>error\<close> when it counted a failure
  and to \<^verbatim>\<open>idle\<close> otherwise, and empties the log exactly when it counted a success;
  without a success the log keeps its entries, followed by those its failures appended.
\<close>

lemma sync_outcome:
  assumes "isOnline c" and "getPendingOperations (localStorage c) = Arr log"
    and "list_all is_json log" and "log \<noteq> []"
  shows "\<exists>res c' w' extra. syncPendingOperations fetch c w = Inr (res, c', w') \<and>
           sync_success res = (failed res = 0) \<and>
           syncStatus c' = (if failed res > 0 then Error else Idle) \<and>
           getPendingOperations (localStorage c') =
             (if synced res > 0 then Arr [] else Arr (log @ extra)) \<and>
           length extra \<le> failed res"
proof -
  let ?c1 = "setSyncStatus Syncing c"
  have start: "getPendingOperations (localStorage ?c1) = Arr log"
    using assms(2) by (simp add: setSyncStatus_def)
  from replay_log [OF start assms(3), of fetch log w 0 0] obtain c2 w2 s2 f2 extra
    where run: "replay fetch log (?c1, w, 0, 0) = (c2, w2, s2, f2)"
      and after: "getPendingOperations (localStorage c2) = Arr (log @ extra)"
      "length extra + 0 \<le> f2"
    by blast
  have len: "int (length log) \<noteq> 0"
    using assms(4) by simp
  show ?thesis
    using assms(1,2) len run after
    by (cases "s2 > 0")
      (auto simp: syncPendingOperations_def Let_def setSyncStatus_def
        getPendingOperations_cleared intro!: exI [of _ extra])
qed

lemma get_delete_op [simp]:
  "get_prop (delete_op x n) ''type'' = Inr (Str ''delete'')"
  "opt_prop (delete_op x n) ''monthId'' = x"
  by (simp_all add: delete_op_def opt_prop_def)

text \<open>
  Claim C1 at two failing inputs. The log holds two deletes; the remote service confirms the
  first and answers the second with a server error. The run counts one success and one
  failure, reports \<^verbatim>\<open>success: false\<close> and status \<^verbatim>\<open>error\<close>, and, since
  \<^verbatim>\<open>synced > 0\<close>, clears the whole log: the failed delete is gone. The same happens to
  the failed upload of \<open>feb\<close> when the log holds two uploads of which the first is accepted.
\<close>

theorem sync_partial_failure_clears_log:
  "syncPendingOperations scripted
     (session\<lparr>localStorage :=
        [(PENDING_OPS_KEY, Json (Arr [delete_op (Str ''1'') 1, delete_op (Str ''2'') 2]))]\<rparr>)
     [Responded deleted_body, Responded server_error_body] =
     Inr (\<lparr>sync_success = False, synced = 1, failed = 1\<rparr>,
          session\<lparr>localStorage := [], syncStatus := Error, lastSyncTime := Some 7\<rparr>, []) \<and>
   syncPendingOperations scripted
     (session\<lparr>localStorage :=
        [(PENDING_OPS_KEY, Json (Arr [upload_op jan 1, upload_op feb 2]))]\<rparr>)
     [Responded ok_body, Responded server_error_body] =
     Inr (\<lparr>sync_success = False, synced = 1, failed = 1\<rparr>,
          session\<lparr>localStorage := [], syncStatus := Error, lastSyncTime := Some 7\<rparr>, [])"
  by (simp add: syncPendingOperations_def Let_def replay_op_def uploadData_def deleteData_def
      scripted_def pend_def setSyncStatus_def ok_body_def deleted_body_def server_error_body_def
      opt_prop_def js_or_def session_def failure_def isLoggedIn_def isOnline_def alice_def)

end
